theory Spec2Isabelle
  imports Complex_Main "HOL-Library.Multiset"
begin

section \<open>Numeric model\<close>

text \<open>
  The program works on numpy \<^verbatim>\<open>float64\<close> arrays. A float is modelled as a finite real
  number or one of the three special values of IEEE arithmetic. Finite arithmetic is exact
  (no rounding, no overflow to infinity, no signed zero); what numpy does with a zero
  divisor, an infinity or a NaN is written out, because the program leaves these cases
  unguarded and some of the properties below depend on them.
\<close>

datatype npfloat = Num real | PosInf | NegInf | NaN

datatype error =
    AssertionError
  | IndexError
  | ValueError
  | ZeroDivisionError
  | AttributeError
  | FileNotFoundError

fun fneg :: "npfloat \<Rightarrow> npfloat" where
  "fneg (Num a) = Num (- a)"
| "fneg PosInf = NegInf"
| "fneg NegInf = PosInf"
| "fneg NaN = NaN"

fun fabs :: "npfloat \<Rightarrow> npfloat" where
  "fabs (Num a) = Num \<bar>a\<bar>"
| "fabs PosInf = PosInf"
| "fabs NegInf = PosInf"
| "fabs NaN = NaN"

fun fadd :: "npfloat \<Rightarrow> npfloat \<Rightarrow> npfloat" where
  "fadd (Num a) (Num b) = Num (a + b)"
| "fadd NaN _ = NaN"
| "fadd _ NaN = NaN"
| "fadd PosInf NegInf = NaN"
| "fadd NegInf PosInf = NaN"
| "fadd PosInf _ = PosInf"
| "fadd _ PosInf = PosInf"
| "fadd NegInf _ = NegInf"
| "fadd _ NegInf = NegInf"

definition fsub :: "npfloat \<Rightarrow> npfloat \<Rightarrow> npfloat" where
  "fsub a b = fadd a (fneg b)"

definition inf_of_sign :: "real \<Rightarrow> npfloat" where
  "inf_of_sign a = (if a = 0 then NaN else if 0 < a then PosInf else NegInf)"

fun fmul :: "npfloat \<Rightarrow> npfloat \<Rightarrow> npfloat" where
  "fmul (Num a) (Num b) = Num (a * b)"
| "fmul NaN _ = NaN"
| "fmul _ NaN = NaN"
| "fmul (Num a) PosInf = inf_of_sign a"
| "fmul (Num a) NegInf = inf_of_sign (- a)"
| "fmul PosInf (Num b) = inf_of_sign b"
| "fmul NegInf (Num b) = inf_of_sign (- b)"
| "fmul PosInf PosInf = PosInf"
| "fmul PosInf NegInf = NegInf"
| "fmul NegInf PosInf = NegInf"
| "fmul NegInf NegInf = PosInf"

fun fdiv :: "npfloat \<Rightarrow> npfloat \<Rightarrow> npfloat" where
  "fdiv (Num a) (Num b) = (if b = 0 then inf_of_sign a else Num (a / b))"
| "fdiv NaN _ = NaN"
| "fdiv _ NaN = NaN"
| "fdiv (Num a) PosInf = Num 0"
| "fdiv (Num a) NegInf = Num 0"
| "fdiv PosInf (Num b) = (if b < 0 then NegInf else PosInf)"
| "fdiv NegInf (Num b) = (if b < 0 then PosInf else NegInf)"
| "fdiv PosInf PosInf = NaN"
| "fdiv PosInf NegInf = NaN"
| "fdiv NegInf PosInf = NaN"
| "fdiv NegInf NegInf = NaN"

fun fsqrt :: "npfloat \<Rightarrow> npfloat" where
  "fsqrt (Num a) = (if a < 0 then NaN else Num (sqrt a))"
| "fsqrt PosInf = PosInf"
| "fsqrt NegInf = NaN"
| "fsqrt NaN = NaN"

text \<open>\<^verbatim>\<open>x**(1.5)\<close>: NaN on a negative finite base, as C's \<^verbatim>\<open>pow\<close>.\<close>

fun fpow15 :: "npfloat \<Rightarrow> npfloat" where
  "fpow15 (Num a) = (if a < 0 then NaN else Num (a powr (3 / 2)))"
| "fpow15 PosInf = PosInf"
| "fpow15 NegInf = PosInf"
| "fpow15 NaN = NaN"

text \<open>Comparisons: every comparison with a NaN is false.\<close>

fun flt :: "npfloat \<Rightarrow> npfloat \<Rightarrow> bool" where
  "flt (Num a) (Num b) = (a < b)"
| "flt NaN _ = False"
| "flt _ NaN = False"
| "flt _ NegInf = False"
| "flt PosInf _ = False"
| "flt NegInf _ = True"
| "flt _ PosInf = True"

fun fle :: "npfloat \<Rightarrow> npfloat \<Rightarrow> bool" where
  "fle (Num a) (Num b) = (a \<le> b)"
| "fle NaN _ = False"
| "fle _ NaN = False"
| "fle NegInf _ = True"
| "fle _ PosInf = True"
| "fle _ NegInf = False"
| "fle PosInf _ = False"

definition fgt :: "npfloat \<Rightarrow> npfloat \<Rightarrow> bool" where
  "fgt a b = flt b a"

definition fge :: "npfloat \<Rightarrow> npfloat \<Rightarrow> bool" where
  "fge a b = fle b a"

text \<open>\<^verbatim>\<open>np.sum\<close> of a one-dimensional float array.\<close>

definition fsum :: "npfloat list \<Rightarrow> npfloat" where
  "fsum xs = foldl fadd (Num 0) xs"

section \<open>Arrays\<close>

text \<open>
  A one-dimensional array is a list, a two-dimensional array the list of its rows (all of
  one length), and so on. A boolean mask is a \<^typ>\<open>bool list\<close>.
\<close>

type_synonym vec = "npfloat list"
type_synonym mat = "npfloat list list"

definition count_true :: "bool list \<Rightarrow> nat" where
  "count_true m = length (filter id m)"

text \<open>\<^verbatim>\<open>a[mask]\<close> for a mask as long as the array: the rows at the True positions, in order.\<close>

definition select :: "bool list \<Rightarrow> 'a list \<Rightarrow> 'a list" where
  "select m xs = map snd (filter fst (zip m xs))"

text \<open>numpy refuses a boolean index whose length differs from the array's first axis.\<close>

definition mask_index :: "'a list \<Rightarrow> bool list \<Rightarrow> error + 'a list" where
  "mask_index xs m = (if length m \<noteq> length xs then Inl IndexError else Inr (select m xs))"

text \<open>
  \<^verbatim>\<open>full[mask] = vals\<close>: the values go to the True positions in order. \<open>scatter\<close> is the
  copy loop, run once the sizes are known to fit.
\<close>

fun scatter :: "'a list \<Rightarrow> bool list \<Rightarrow> 'a list \<Rightarrow> 'a list" where
  "scatter (b # bs) (True # ms) (v # vs) = v # scatter bs ms vs"
| "scatter (b # bs) (True # ms) [] = b # scatter bs ms []"
| "scatter (b # bs) (False # ms) vs = b # scatter bs ms vs"
| "scatter bs [] vs = bs"
| "scatter [] ms vs = []"

text \<open>
  The assignment as numpy checks it: a mask of the wrong length is an IndexError; the
  values must be as many as the True positions, or a single value, which is broadcast to
  all of them; anything else is a ValueError.
\<close>

definition mask_assign :: "'a list \<Rightarrow> bool list \<Rightarrow> 'a list \<Rightarrow> error + 'a list" where
  "mask_assign full m vals =
     (if length m \<noteq> length full then Inl IndexError
      else if length vals = count_true m then Inr (scatter full m vals)
      else if length vals = 1 then Inr (scatter full m (replicate (count_true m) (hd vals)))
      else Inl ValueError)"

definition column :: "nat \<Rightarrow> 'a list list \<Rightarrow> 'a list" where
  "column j M = map (\<lambda>r. r ! j) M"

definition np_transpose :: "mat \<Rightarrow> mat" where
  "np_transpose M = (case M of [] \<Rightarrow> [] | r # _ \<Rightarrow> map (\<lambda>j. column j M) [0..<length r])"

definition madd :: "mat \<Rightarrow> mat \<Rightarrow> mat" where
  "madd A B = map2 (map2 fadd) A B"

definition msub :: "mat \<Rightarrow> mat \<Rightarrow> mat" where
  "msub A B = map2 (map2 fsub) A B"

definition dot :: "vec \<Rightarrow> vec \<Rightarrow> npfloat" where
  "dot u v = fsum (map2 fmul u v)"

definition vecmat :: "vec \<Rightarrow> mat \<Rightarrow> vec" where
  "vecmat v M = map (\<lambda>c. dot v c) (np_transpose M)"

definition matmul :: "mat \<Rightarrow> mat \<Rightarrow> mat" where
  "matmul A B = map (\<lambda>r. vecmat r B) A"

definition trace :: "mat \<Rightarrow> npfloat" where
  "trace M = fsum (map (\<lambda>i. M ! i ! i) [0..<length M])"

definition eye3 :: mat where
  "eye3 = [[Num 1, Num 0, Num 0], [Num 0, Num 1, Num 0], [Num 0, Num 0, Num 1]]"

section \<open>Constants\<close>

text \<open>
  Modelled from the spec: \<^verbatim>\<open>constants.N_FEATURES\<close> and \<^verbatim>\<open>constants.N_BASIS\<close> are not in
  the sources. The feature vector has 13 invariants followed by 2 further scalars, and the
  tensor basis has 6 matrices.
\<close>

definition N_FEATURES :: nat where
  "N_FEATURES = 15"

definition N_BASIS :: nat where
  "N_BASIS = 6"

text \<open>\<^verbatim>\<open>np.empty\<close>: the content is arbitrary until written; zeros stand for it.\<close>

definition np_empty :: "nat \<Rightarrow> vec" where
  "np_empty n = replicate n (Num 0)"

section \<open>calcInvariants\<close>

text \<open>
  \<open>gradU\<close> is a 3 by 3 array and \<open>gradT\<close> has 3 entries. \<^verbatim>\<open>multi_dot\<close> is a chain of
  matrix products, taken here from left to right.
\<close>

definition calcInvariants :: "mat \<Rightarrow> vec \<Rightarrow> bool \<Rightarrow> vec \<times> mat list option" where
  "calcInvariants gradU gradT basis =
     (let S = madd gradU (np_transpose gradU);
          R = msub gradU (np_transpose gradU);
          S2 = matmul S S;
          R2 = matmul R R;
          S_R2 = matmul S R2;
          invariants = (np_empty (N_FEATURES - 2))
            [0 := trace S2,
             1 := trace (matmul S2 S),
             2 := trace R2,
             3 := trace S_R2,
             4 := trace (matmul S2 R2),
             5 := trace (matmul (matmul (matmul S2 R2) S) R),
             6 := dot gradT gradT,
             7 := dot (vecmat gradT S) gradT,
             8 := dot (vecmat gradT S2) gradT,
             9 := dot (vecmat gradT R2) gradT,
             10 := dot (vecmat (vecmat gradT S) R) gradT,
             11 := dot (vecmat (vecmat gradT S2) R) gradT,
             12 := dot (vecmat (vecmat gradT R) S_R2) gradT]
      in if basis
         then (invariants,
               Some [eye3, S, S2, R, R2, madd (matmul S R) (matmul R S)])
         else (invariants, None))"

section \<open>MeanFlowQuantities\<close>

text \<open>
  The class holds the arrays of one dataset. The fields set in feature mode
  (\<^verbatim>\<open>labels=False\<close>) and those set in label mode exclude each other, so they are the two
  alternatives of \<open>mode_fields\<close>; reading a field of the other mode is an AttributeError.
  The one-letter attributes \<^verbatim>\<open>self.u\<close>, \<^verbatim>\<open>self.t\<close> and \<^verbatim>\<open>self.d\<close> are written
  \<open>self_u\<close>, \<open>self_t\<close> and \<open>self_d\<close>.
\<close>

record feature_fields =
  gradU :: "mat list"
  tke :: vec
  epsilon :: vec
  mu :: vec
  self_d :: vec

record label_fields =
  self_u :: mat
  uc :: mat
  self_t :: vec

datatype mode_fields = FeatureMode feature_fields | LabelMode label_fields

record MeanFlowQuantities =
  n_points :: nat
  gradT :: mat
  rho :: vec
  mut :: vec
  mode :: mode_fields

definition labels :: "MeanFlowQuantities \<Rightarrow> bool" where
  "labels self = (case mode self of LabelMode _ \<Rightarrow> True | FeatureMode _ \<Rightarrow> False)"

definition nonDimensionalize :: "MeanFlowQuantities \<Rightarrow> real \<Rightarrow> MeanFlowQuantities" where
  "nonDimensionalize self deltaT0 =
     (if \<not> labels self
      then self\<lparr>gradT := map (map (\<lambda>x. fdiv x (Num deltaT0))) (gradT self)\<rparr>
      else self)"

text \<open>\<^verbatim>\<open>(a >= 0).all()\<close>\<close>

definition all_nonneg :: "vec \<Rightarrow> bool" where
  "all_nonneg a = list_all (\<lambda>x. fge x (Num 0)) a"

text \<open>The assertions of \<^verbatim>\<open>check\<close>, in the order of the source. The spec calls a failed
  assertion a ValidationError.\<close>

definition check :: "MeanFlowQuantities \<Rightarrow> error + unit" where
  "check self =
     (if length (rho self) \<noteq> n_points self then Inl AssertionError
      else if length (mut self) \<noteq> n_points self then Inl AssertionError
      else if \<not> all_nonneg (rho self) then Inl AssertionError
      else if \<not> all_nonneg (mut self) then Inl AssertionError
      else (case mode self of
              LabelMode l \<Rightarrow>
                (if length (self_t l) \<noteq> n_points self then Inl AssertionError else Inr ())
            | FeatureMode f \<Rightarrow>
                (if length (tke f) \<noteq> n_points self then Inl AssertionError
                 else if length (epsilon f) \<noteq> n_points self then Inl AssertionError
                 else if length (mu f) \<noteq> n_points self then Inl AssertionError
                 else if length (self_d f) \<noteq> n_points self then Inl AssertionError
                 else if \<not> all_nonneg (tke f) then Inl AssertionError
                 else if \<not> all_nonneg (epsilon f) then Inl AssertionError
                 else if \<not> all_nonneg (mu f) then Inl AssertionError
                 else if \<not> all_nonneg (self_d f) then Inl AssertionError
                 else Inr ())))"

text \<open>
  The constructor reads every field from a tecplot zone, an external library that is not
  part of the sources. It is modelled from the point where the fields are loaded:
  \<open>loaded\<close> is the object with the arrays as read, and the constructor runs
  \<^verbatim>\<open>nonDimensionalize\<close> and \<^verbatim>\<open>check\<close> on it. A failed assertion aborts the construction.
\<close>

definition MeanFlowQuantities_init :: "MeanFlowQuantities \<Rightarrow> real \<Rightarrow> error + MeanFlowQuantities" where
  "MeanFlowQuantities_init loaded deltaT0 =
     (let self = nonDimensionalize loaded deltaT0
      in case check self of Inl e \<Rightarrow> Inl e | Inr _ \<Rightarrow> Inr self)"

section \<open>Elementwise operations with broadcasting\<close>

definition then_do :: "error + 'a \<Rightarrow> ('a \<Rightarrow> error + 'b) \<Rightarrow> error + 'b" where
  "then_do r f = (case r of Inl e \<Rightarrow> Inl e | Inr x \<Rightarrow> f x)"

fun collect :: "(error + 'a) list \<Rightarrow> error + 'a list" where
  "collect [] = Inr []"
| "collect (r # rs) =
     (case r of Inl e \<Rightarrow> Inl e
      | Inr x \<Rightarrow> (case collect rs of Inl e \<Rightarrow> Inl e | Inr xs \<Rightarrow> Inr (x # xs)))"

text \<open>
  An elementwise operation on two arrays along one axis: the lengths are equal, or one of
  them is 1 and that entry is repeated; otherwise numpy raises a ValueError.
\<close>

definition bcast :: "('a \<Rightarrow> 'b \<Rightarrow> error + 'c) \<Rightarrow> 'a list \<Rightarrow> 'b list \<Rightarrow> error + 'c list" where
  "bcast f xs ys =
     (if length xs = length ys then collect (map2 f xs ys)
      else if length xs = 1 then collect (map (f (hd xs)) ys)
      else if length ys = 1 then collect (map (\<lambda>x. f x (hd ys)) xs)
      else Inl ValueError)"

definition bc1 :: "(npfloat \<Rightarrow> npfloat \<Rightarrow> npfloat) \<Rightarrow> vec \<Rightarrow> vec \<Rightarrow> error + vec" where
  "bc1 f xs ys = bcast (\<lambda>x y. Inr (f x y)) xs ys"

definition bc2 :: "(npfloat \<Rightarrow> npfloat \<Rightarrow> npfloat) \<Rightarrow> mat \<Rightarrow> mat \<Rightarrow> error + mat" where
  "bc2 f A B = bcast (bc1 f) A B"

text \<open>\<^verbatim>\<open>np.sum(A, axis=1)\<close>\<close>

definition row_sums :: "mat \<Rightarrow> vec" where
  "row_sums A = map fsum A"

section \<open>calculateShouldUse\<close>

definition nondim_grad_mag :: "MeanFlowQuantities \<Rightarrow> error + vec" where
  "nondim_grad_mag mfq =
     (let grad_mag = map fsqrt (row_sums (map (map (\<lambda>x. fmul x x)) (gradT mfq)))
      in case mode mfq of
           LabelMode _ \<Rightarrow> Inl AttributeError
         | FeatureMode f \<Rightarrow>
             then_do (bc1 fdiv (map fpow15 (tke f)) (epsilon f))
               (\<lambda>scale. bc1 fmul grad_mag scale))"

definition calculateShouldUse :: "MeanFlowQuantities \<Rightarrow> real \<Rightarrow> error + bool list" where
  "calculateShouldUse mfq threshold =
     then_do (nondim_grad_mag mfq)
       (\<lambda>grad_mag. Inr (map (\<lambda>g. fge g (Num threshold)) grad_mag))"

section \<open>calculateGamma\<close>

text \<open>The two branches of the source up to the clipping: \<^verbatim>\<open>gamma = alpha_t*(rho/mut)\<close>.\<close>

definition gamma_ratio :: "vec \<Rightarrow> vec \<Rightarrow> MeanFlowQuantities \<Rightarrow> error + vec" where
  "gamma_ratio top_sum bottom_sum mfq =
     then_do (bc1 fdiv (map (fmul (Num (- 1))) top_sum) bottom_sum)
       (\<lambda>alpha_t. then_do (bc1 fdiv (rho mfq) (mut mfq))
          (\<lambda>ratio. bc1 fmul alpha_t ratio))"

definition gamma_plain :: "MeanFlowQuantities \<Rightarrow> label_fields \<Rightarrow> error + vec" where
  "gamma_plain mfq l =
     then_do (bc2 fmul (uc l) (gradT mfq))
       (\<lambda>ucT. then_do (bc2 fmul (gradT mfq) (gradT mfq))
          (\<lambda>TT. gamma_ratio (row_sums ucT) (row_sums TT) mfq))"

definition gamma_corrected :: "MeanFlowQuantities \<Rightarrow> label_fields \<Rightarrow> error + vec" where
  "gamma_corrected mfq l =
     (let norm_uc = map (\<lambda>r. [fsqrt (fsum (map (\<lambda>x. fmul x x) r))]) (uc l)
      in then_do (bc2 fmul (self_u l) (map (\<lambda>x. [x]) (self_t l)))
           (\<lambda>ut. then_do (bc2 fadd norm_uc (map (map fabs) ut))
              (\<lambda>F1. let F = map (map (fdiv (Num 1))) F1
                 in then_do (bc2 fmul F (uc l))
                      (\<lambda>Fuc. then_do (bc2 fmul Fuc (gradT mfq))
                         (\<lambda>FucT. then_do (bc2 fmul F (gradT mfq))
                            (\<lambda>FT. then_do (bc2 fmul FT (gradT mfq))
                               (\<lambda>FTT. gamma_ratio (row_sums FucT) (row_sums FTT) mfq)))))))"

text \<open>\<^verbatim>\<open>gamma[gamma > prt_cap] = prt_cap\<close>, then \<^verbatim>\<open>gamma[gamma < 1.0/prt_cap] = 1.0/prt_cap\<close>.
  \<open>prt_cap\<close> is a Python number, so \<^verbatim>\<open>1.0/prt_cap\<close> raises ZeroDivisionError at 0.\<close>

definition clip_above :: "real \<Rightarrow> npfloat \<Rightarrow> npfloat" where
  "clip_above cap g = (if fgt g (Num cap) then Num cap else g)"

definition clip_below :: "real \<Rightarrow> npfloat \<Rightarrow> npfloat" where
  "clip_below lo g = (if flt g (Num lo) then Num lo else g)"

definition calculateGamma :: "MeanFlowQuantities \<Rightarrow> real \<Rightarrow> bool \<Rightarrow> error + vec" where
  "calculateGamma mfq prt_cap use_correction =
     (case mode mfq of
        FeatureMode _ \<Rightarrow> Inl AttributeError
      | LabelMode l \<Rightarrow>
          then_do (if use_correction then gamma_corrected mfq l else gamma_plain mfq l)
            (\<lambda>gamma. if prt_cap = 0 then Inl ZeroDivisionError
               else Inr (map (clip_below (1 / prt_cap)) (map (clip_above prt_cap) gamma))))"

section \<open>cleanFeatures\<close>

text \<open>
  The values of \<^verbatim>\<open>constants.py\<close> read by the functions below are not in the sources; they
  are the fields of a record that each function takes as its first argument.
\<close>

record constants =
  N_STD :: real
  MAX_ITER :: nat
  TOL :: real
  MAX_CLEAN :: real
  PR_T :: real

text \<open>\<^verbatim>\<open>np.mean\<close> and \<^verbatim>\<open>np.std\<close> of a column. Over no rows both are NaN (0/0).\<close>

definition np_mean :: "vec \<Rightarrow> npfloat" where
  "np_mean xs = fdiv (fsum xs) (Num (real (length xs)))"

definition np_std :: "vec \<Rightarrow> npfloat" where
  "np_std xs = fsqrt (np_mean (map (\<lambda>x. fmul (fsub x (np_mean xs)) (fsub x (np_mean xs))) xs))"

definition n_columns :: "'a list list \<Rightarrow> nat" where
  "n_columns X = (case X of [] \<Rightarrow> 0 | r # _ \<Rightarrow> length r)"

text \<open>\<open>x_mean\<close> and \<open>x_std\<close> of every column, over the rows that the current mask
  includes. The source's variable \<^verbatim>\<open>mask\<close> is written \<open>row_mask\<close>.\<close>

definition col_stats :: "mat \<Rightarrow> bool list \<Rightarrow> (npfloat \<times> npfloat) list" where
  "col_stats x_features row_mask =
     map (\<lambda>j. (np_mean (column j (select row_mask x_features)),
               np_std (column j (select row_mask x_features))))
       [0..<n_columns x_features]"

text \<open>One entry of \<^verbatim>\<open>(x < x_mean - n_std*x_std) + (x > x_mean + n_std*x_std)\<close>.\<close>

definition is_outlier :: "real \<Rightarrow> npfloat \<Rightarrow> npfloat \<Rightarrow> npfloat \<Rightarrow> bool" where
  "is_outlier n_std x x_mean x_std =
     (flt x (fsub x_mean (fmul (Num n_std) x_std)) \<or>
      fgt x (fadd x_mean (fmul (Num n_std) x_std)))"

definition row_flagged :: "real \<Rightarrow> (npfloat \<times> npfloat) list \<Rightarrow> vec \<Rightarrow> bool" where
  "row_flagged n_std stats r = list_ex (\<lambda>(x, ms). is_outlier n_std x (fst ms) (snd ms)) (zip r stats)"

text \<open>The new mask of one iteration: every row of \<open>x_features\<close> is tested, against the
  statistics of the rows that the current mask includes.\<close>

definition include_mask :: "constants \<Rightarrow> mat \<Rightarrow> bool list \<Rightarrow> bool list" where
  "include_mask c x_features row_mask =
     map (\<lambda>r. \<not> row_flagged (N_STD c) (col_stats x_features row_mask) r) x_features"

text \<open>
  \<^verbatim>\<open>cleaned_exs is not None and (new_cleaned_exs - cleaned_exs)/cleaned_exs < tol\<close>. The
  counts are numpy integers, so a zero divisor gives an infinity or a NaN.
\<close>

definition converged :: "real \<Rightarrow> nat option \<Rightarrow> nat \<Rightarrow> bool" where
  "converged tol cleaned_exs new_cleaned_exs =
     (case cleaned_exs of
        None \<Rightarrow> False
      | Some old \<Rightarrow>
          flt (fdiv (Num (real_of_int (int new_cleaned_exs - int old))) (Num (real old)))
              (Num tol))"

text \<open>\<^verbatim>\<open>cleaned_exs/x_features.shape[0] > max_clean\<close>\<close>

definition too_many_cleaned :: "real \<Rightarrow> nat \<Rightarrow> nat \<Rightarrow> bool" where
  "too_many_cleaned max_clean cleaned n_rows =
     fgt (fdiv (Num (real cleaned)) (Num (real n_rows))) (Num max_clean)"

record loop_state =
  row_mask :: "bool list"
  cleaned_exs :: "nat option"
  warning_flag :: bool
  iterations :: nat

definition loop_init :: "mat \<Rightarrow> loop_state" where
  "loop_init x_features =
     \<lparr>row_mask = replicate (length x_features) True, cleaned_exs = None,
      warning_flag = True, iterations = 0\<rparr>"

text \<open>
  The \<^verbatim>\<open>for i in range(max_iter)\<close> loop; the first argument after the data counts the
  iterations that remain, and \<open>iterations\<close> those that were entered.
\<close>

fun clean_loop :: "constants \<Rightarrow> mat \<Rightarrow> nat \<Rightarrow> loop_state \<Rightarrow> loop_state" where
  "clean_loop c x_features 0 st = st"
| "clean_loop c x_features (Suc k) st =
     (let new_mask = include_mask c x_features (row_mask st);
          new_cleaned_exs = length x_features - count_true new_mask;
          st1 = st\<lparr>row_mask := new_mask, cleaned_exs := Some new_cleaned_exs,
                   iterations := Suc (iterations st)\<rparr>
      in if converged (TOL c) (cleaned_exs st) new_cleaned_exs
         then st1\<lparr>warning_flag := False\<rparr>
         else if too_many_cleaned (MAX_CLEAN c) new_cleaned_exs (length x_features)
         then st1
         else clean_loop c x_features k st1)"

definition cleanFeatures ::
  "constants \<Rightarrow> mat \<Rightarrow> bool list \<Rightarrow> 'b list option \<Rightarrow> error + (mat \<times> bool list \<times> 'b list option)" where
  "cleanFeatures c x_features should_use tensor_basis =
     (let final = clean_loop c x_features (MAX_ITER c) (loop_init x_features);
          new_x_features = select (row_mask final) x_features
      in then_do (mask_assign (replicate (length should_use) False) should_use (row_mask final))
           (\<lambda>new_should_use.
              case tensor_basis of
                None \<Rightarrow> Inr (new_x_features, new_should_use, None)
              | Some tb \<Rightarrow>
                  then_do (mask_index tb (row_mask final))
                    (\<lambda>new_tensor_basis.
                       Inr (new_x_features, new_should_use, Some new_tensor_basis))))"

section \<open>fillPrt and fillAlpha\<close>

definition fillPrt :: "constants \<Rightarrow> vec \<Rightarrow> bool list \<Rightarrow> real option \<Rightarrow> error + vec" where
  "fillPrt c Prt should_use default_prt =
     (let n_cells = length should_use;
          n_useful = count_true should_use
      in if length Prt \<noteq> n_useful then Inl AssertionError
         else if \<not> all_nonneg Prt then Inl AssertionError
         else (let dp = (case default_prt of None \<Rightarrow> PR_T c | Some v \<Rightarrow> v)
               in if \<not> 0 < dp then Inl AssertionError
                  else mask_assign (replicate n_cells (Num (1 * dp))) should_use Prt))"

definition is_3x3 :: "mat \<Rightarrow> bool" where
  "is_3x3 A = (length A = 3 \<and> list_all (\<lambda>r. length r = 3) A)"

text \<open>\<^verbatim>\<open>np.zeros((3,3))\<close> with \<^verbatim>\<open>1.0/default_prt\<close> written on the diagonal.\<close>

definition isotropic :: "real \<Rightarrow> mat" where
  "isotropic dp =
     map (\<lambda>i. map (\<lambda>j. if i = j then Num (1 / dp) else Num 0) [0..<3]) [0..<(3::nat)]"

definition fillAlpha :: "constants \<Rightarrow> mat list \<Rightarrow> bool list \<Rightarrow> real option \<Rightarrow> error + mat list" where
  "fillAlpha c alphaij should_use default_prt =
     (let n_cells = length should_use;
          n_useful = count_true should_use
      in if length alphaij \<noteq> n_useful then Inl AssertionError
         else if \<not> list_all is_3x3 alphaij then Inl AssertionError
         else if \<not> all_nonneg (map (\<lambda>A. A ! 0 ! 0) alphaij) then Inl AssertionError
         else if \<not> all_nonneg (map (\<lambda>A. A ! 1 ! 1) alphaij) then Inl AssertionError
         else if \<not> all_nonneg (map (\<lambda>A. A ! 2 ! 2) alphaij) then Inl AssertionError
         else (let dp = (case default_prt of None \<Rightarrow> PR_T c | Some v \<Rightarrow> v)
               in if \<not> 0 < dp then Inl AssertionError
                  else mask_assign (replicate n_cells (isotropic dp)) should_use alphaij))"

section \<open>Downsampling and persistence\<close>

text \<open>Python's \<^verbatim>\<open>int\<close> of a float truncates towards zero.\<close>

definition py_int :: "real \<Rightarrow> int" where
  "py_int x = (if 0 \<le> x then \<lfloor>x\<rfloor> else \<lceil>x\<rceil>)"

text \<open>
  \<^verbatim>\<open>np.random.shuffle\<close> permutes the index array in place. The random choice is the
  argument \<open>shuffle\<close>; the theorems assume of it only that it returns a permutation.
\<close>

definition downsampleIdx :: "(nat list \<Rightarrow> nat list) \<Rightarrow> nat \<Rightarrow> real option \<Rightarrow> error + nat list" where
  "downsampleIdx shuffle n_total downsample =
     (let idx_tot = shuffle [0..<n_total]
      in case downsample of
           None \<Rightarrow> Inr idx_tot
         | Some ds \<Rightarrow>
             if \<not> 0 < ds then Inl AssertionError
             else if 1 < py_int ds
             then (let n_take = nat (py_int ds)
                   in Inr (take (if n_total < n_take then n_total else n_take) idx_tot))
             else (let n_take = nat (py_int (ds * real n_total))
                   in Inr (take (if n_total < n_take then n_total else n_take) idx_tot)))"

text \<open>\<^verbatim>\<open>var[idx]\<close> for an index array: an index past the end is an IndexError.\<close>

definition take_rows :: "'a list \<Rightarrow> nat list \<Rightarrow> error + 'a list" where
  "take_rows var idx =
     (if list_all (\<lambda>i. i < length var) idx then Inr (map (\<lambda>i. var ! i) idx) else Inl IndexError)"

text \<open>
  A file written by \<^verbatim>\<open>joblib.dump\<close> holds the pair of the model type and the list of
  arrays, and \<^verbatim>\<open>joblib.load\<close> returns it. The disk maps file names to contents.
\<close>

type_synonym 'a disk = "string \<rightharpoonup> (string \<times> 'a list list)"

definition saveTrainingFeatures ::
  "(nat list \<Rightarrow> nat list) \<Rightarrow> 'a disk \<Rightarrow> 'a list list \<Rightarrow> string \<Rightarrow> string \<Rightarrow> real option
     \<Rightarrow> error + 'a disk" where
  "saveTrainingFeatures shuffle disk training_list model_type filename downsample =
     (case training_list of
        [] \<Rightarrow> Inl IndexError
      | first # _ \<Rightarrow>
          then_do (downsampleIdx shuffle (length first) downsample)
            (\<lambda>idx. then_do (collect (map (\<lambda>var. take_rows var idx) training_list))
               (\<lambda>save_var. Inr (disk(filename \<mapsto> (model_type, save_var))))))"

definition loadTrainingFeatures ::
  "(nat list \<Rightarrow> nat list) \<Rightarrow> 'a disk \<Rightarrow> string \<Rightarrow> string \<Rightarrow> real option \<Rightarrow> error + 'a list list" where
  "loadTrainingFeatures shuffle disk file model_type downsample =
     (case disk file of
        None \<Rightarrow> Inl FileNotFoundError
      | Some (model_type_disk, save_vars) \<Rightarrow>
          if model_type \<noteq> model_type_disk then Inl AssertionError
          else (case save_vars of
                  [] \<Rightarrow> Inl IndexError
                | first # _ \<Rightarrow>
                    then_do (downsampleIdx shuffle (length first) downsample)
                      (\<lambda>idx. collect (map (\<lambda>var. if length var \<noteq> length first
                                                 then Inl AssertionError
                                                 else take_rows var idx) save_vars))))"

section \<open>Predicates of the claims and example inputs\<close>

text \<open>The pure strain of the spec's scenario, with a temperature gradient along x.\<close>

definition G_strain :: mat where
  "G_strain = [[Num 1, Num 0, Num 0], [Num 0, Num (- 1), Num 0], [Num 0, Num 0, Num 0]]"

definition gradT_x :: vec where
  "gradT_x = [Num 1, Num 0, Num 0]"

text \<open>The hypothesis of the tensor scatter: the three diagonal entries are nonnegative.\<close>

definition diag_nonneg :: "mat list \<Rightarrow> bool" where
  "diag_nonneg A = (all_nonneg (map (\<lambda>T. T ! 0 ! 0) A) \<and> all_nonneg (map (\<lambda>T. T ! 1 ! 1) A) \<and>
      all_nonneg (map (\<lambda>T. T ! 2 ! 2) A))"

text \<open>A mask with a gap, two scalar values and two tensors for the scatter.\<close>

definition M_ex :: "bool list" where
  "M_ex = [True, False, True]"

definition V_ex :: vec where
  "V_ex = [Num 2, Num 0]"

definition A_ex :: "mat list" where
  "A_ex = [[[Num 1, Num 2, Num 3], [Num 4, Num 5, Num 6], [Num 7, Num 8, Num 9]],
           [[Num 0, Num (- 1), Num 0], [Num 1, Num 0, Num 0], [Num 0, Num 0, Num 3]]]"

text \<open>
  Values for the constants of the cleaning loop, and a feature matrix of 26 rows and two
  columns on which the loop includes again a row that it had excluded: row 0 is an outlier
  of the first column, rows 1 to 5 are outliers of the second.
\<close>

definition c_ex :: constants where
  "c_ex = \<lparr>N_STD = 2, MAX_ITER = 10, TOL = 1 / 100, MAX_CLEAN = 1 / 4, PR_T = 17 / 20\<rparr>"

definition X_ex :: mat where
  "X_ex = [Num 2, Num 0] # replicate 5 [Num 0, Num 1] @ replicate 10 [Num 1, Num 0]
          @ replicate 10 [Num (- 1), Num 0]"

definition mask1_ex :: "bool list" where
  "mask1_ex = replicate 6 False @ replicate 20 True"

definition mask2_ex :: "bool list" where
  "mask2_ex = True # replicate 5 False @ replicate 20 True"

text \<open>Two rows without an outlier, a gating mask with a gap and a tensor basis of two rows.\<close>

definition X_small :: mat where
  "X_small = [[Num 0, Num 3], [Num 1, Num 3]]"

definition su_ex :: "bool list" where
  "su_ex = [True, False, True]"

definition tb_ex :: "mat list list" where
  "tb_ex = [[eye3], [eye3]]"

text \<open>Words of the claims about the container: an array has a negative entry; a value
  lies in a closed interval (an infinity or a NaN lies in none).\<close>

definition has_negative :: "vec \<Rightarrow> bool" where
  "has_negative a = list_ex (\<lambda>x. flt x (Num 0)) a"

definition in_range :: "real \<Rightarrow> real \<Rightarrow> npfloat \<Rightarrow> bool" where
  "in_range lo hi x = (case x of Num r \<Rightarrow> lo \<le> r \<and> r \<le> hi | _ \<Rightarrow> False)"

text \<open>The shapes that the constructor gives the arrays read in label mode: \<open>n\<close> rows of
  three entries for the vectors, \<open>n\<close> entries for the scalars.\<close>

definition rows3 :: "nat \<Rightarrow> mat \<Rightarrow> bool" where
  "rows3 n A = (length A = n \<and> list_all (\<lambda>r. length r = 3) A)"

definition label_shaped :: "MeanFlowQuantities \<Rightarrow> label_fields \<Rightarrow> bool" where
  "label_shaped mfq l =
     (mode mfq = LabelMode l \<and>
      rows3 (n_points mfq) (gradT mfq) \<and> rows3 (n_points mfq) (uc l) \<and>
      rows3 (n_points mfq) (self_u l) \<and> length (self_t l) = n_points mfq \<and>
      length (rho mfq) = n_points mfq \<and> length (mut mfq) = n_points mfq)"

text \<open>
  A feature-mode container of three cells: a unit gradient, a zero gradient, and a cell
  with zero gradient, zero turbulence kinetic energy and zero dissipation.
\<close>

definition feat_ex :: feature_fields where
  "feat_ex = \<lparr>gradU = [G_strain, G_strain, G_strain],
              tke = [Num 1, Num 1, Num 0], epsilon = [Num 1, Num 1, Num 0],
              mu = [Num 1, Num 1, Num 1], self_d = [Num 1, Num 2, Num 3]\<rparr>"

definition mfq_feat :: MeanFlowQuantities where
  "mfq_feat = \<lparr>n_points = 3,
               gradT = [[Num 1, Num 0, Num 0], [Num 0, Num 0, Num 0], [Num 0, Num 0, Num 0]],
               rho = [Num 1, Num 1, Num 1], mut = [Num 1, Num 1, Num 1],
               mode = FeatureMode feat_ex\<rparr>"

text \<open>The same container with a negative density in the second cell.\<close>

definition mfq_bad :: MeanFlowQuantities where
  "mfq_bad = mfq_feat\<lparr>rho := [Num 1, Num (- 1), Num 1]\<rparr>"

text \<open>
  A label-mode container of two cells: in the first the scalar flux is opposite to a unit
  temperature gradient, in the second the temperature gradient is zero.
\<close>

definition lab_ex :: label_fields where
  "lab_ex = \<lparr>self_u = [[Num 0, Num 0, Num 0], [Num 1, Num 0, Num 0]],
             uc = [[Num (- 1), Num 0, Num 0], [Num 1, Num 0, Num 0]],
             self_t = [Num 0, Num 1]\<rparr>"

definition mfq_lab :: MeanFlowQuantities where
  "mfq_lab = \<lparr>n_points = 2,
              gradT = [[Num 1, Num 0, Num 0], [Num 0, Num 0, Num 0]],
              rho = [Num 1, Num 1], mut = [Num 1, Num 1],
              mode = LabelMode lab_ex\<rparr>"

text \<open>Three arrays of three rows for the persistence round trip.\<close>

definition training_ex :: "nat list list" where
  "training_ex = [[10, 11, 12], [20, 21, 22], [30, 31, 32]]"

text \<open>What \<^verbatim>\<open>check\<close> asks of a feature-mode object: the six scalar arrays have
  \<open>n_points\<close> entries and none is below zero.\<close>

definition feature_valid :: "MeanFlowQuantities \<Rightarrow> feature_fields \<Rightarrow> bool" where
  "feature_valid self f =
     (length (rho self) = n_points self \<and> length (mut self) = n_points self \<and>
      length (tke f) = n_points self \<and> length (epsilon f) = n_points self \<and>
      length (mu f) = n_points self \<and> length (self_d f) = n_points self \<and>
      all_nonneg (rho self) \<and> all_nonneg (mut self) \<and> all_nonneg (tke f) \<and>
      all_nonneg (epsilon f) \<and> all_nonneg (mu f) \<and> all_nonneg (self_d f))"

text \<open>Two rows that numpy combines entry by entry into a row of three: both have three
  entries, or one has three and the other a single entry that is repeated.\<close>

definition row_fit :: "vec \<Rightarrow> vec \<Rightarrow> bool" where
  "row_fit r s = ((length r = 3 \<and> length s = 3) \<or> (length r = 3 \<and> length s = 1) \<or>
           (length r = 1 \<and> length s = 3))"

text \<open>Two model types and a file name.\<close>

definition tag_RF :: string where
  "tag_RF = ''RF''"

definition tag_TBNNS :: string where
  "tag_TBNNS = ''TBNNS''"

definition file_ex :: string where
  "file_ex = ''features.pckl''"

text \<open>One array of ten rows.\<close>

definition training10 :: "nat list list" where
  "training10 = [[100, 101, 102, 103, 104, 105, 106, 107, 108, 109]]"

text \<open>For \<open>X_ex\<close>: a gating mask of 27 cells with one cell not gated, the mask that
  \<open>cleanFeatures\<close> returns for it, and a tensor basis of 26 rows (each row stands for
  its index).\<close>

definition su_gap :: "bool list" where
  "su_gap = True # False # replicate 25 True"

definition new_su_gap :: "bool list" where
  "new_su_gap = True # False # replicate 5 False @ replicate 20 True"

definition tb26 :: "nat list" where
  "tb26 = [0..<26]"

section \<open>The invariants of a pure strain\<close>

lemmas linalg_defs =
  madd_def msub_def fsub_def matmul_def vecmat_def dot_def fsum_def trace_def
  np_transpose_def column_def

lemma calcInvariants_pure_strain_value:
  "calcInvariants G_strain gradT_x False =
     ([Num 8, Num 0, Num 0, Num 0, Num 0, Num 0, Num 1, Num 2, Num 4, Num 0, Num 0, Num 0, Num 0],
      None)"
  by (simp add: calcInvariants_def N_FEATURES_def np_empty_def linalg_defs G_strain_def
      gradT_x_def upt_conv_Cons Let_def eval_nat_numeral)

text \<open>With \<^verbatim>\<open>basis=True\<close> the function also returns S and R (entries 1 and 3 of the
  tensor basis): S is twice the strain and R vanishes.\<close>

lemma calcInvariants_pure_strain_basis:
  "snd (calcInvariants G_strain gradT_x True) =
     Some [eye3,
           [[Num 2, Num 0, Num 0], [Num 0, Num (- 2), Num 0], [Num 0, Num 0, Num 0]],
           [[Num 4, Num 0, Num 0], [Num 0, Num 4, Num 0], [Num 0, Num 0, Num 0]],
           [[Num 0, Num 0, Num 0], [Num 0, Num 0, Num 0], [Num 0, Num 0, Num 0]],
           [[Num 0, Num 0, Num 0], [Num 0, Num 0, Num 0], [Num 0, Num 0, Num 0]],
           [[Num 0, Num 0, Num 0], [Num 0, Num 0, Num 0], [Num 0, Num 0, Num 0]]]"
  by (simp add: calcInvariants_def linalg_defs G_strain_def gradT_x_def upt_conv_Cons Let_def)

text \<open>
  C1. For G = [[1,0,0],[0,-1,0],[0,0,0]] and gradT = [1,0,0], \<open>calcInvariants\<close> returns
  13 entries; entries 2, 3, 4, 5, 9, 10, 11 and 12 are 0, entry 6 is 1 and entry 7 is 2.
  S = G + transpose G is 2G and R = G - transpose G is 0: neither is halved.
\<close>

theorem calcInvariants_pure_strain:
  "(let invariants = fst (calcInvariants G_strain gradT_x False)
    in length invariants = 13 \<and>
       invariants ! 2 = Num 0 \<and> invariants ! 3 = Num 0 \<and> invariants ! 4 = Num 0 \<and>
       invariants ! 5 = Num 0 \<and> invariants ! 9 = Num 0 \<and> invariants ! 10 = Num 0 \<and>
       invariants ! 11 = Num 0 \<and> invariants ! 12 = Num 0 \<and>
       invariants ! 6 = Num 1 \<and> invariants ! 7 = Num 2) \<and>
   madd G_strain (np_transpose G_strain) =
     [[Num 2, Num 0, Num 0], [Num 0, Num (- 2), Num 0], [Num 0, Num 0, Num 0]] \<and>
   msub G_strain (np_transpose G_strain) =
     [[Num 0, Num 0, Num 0], [Num 0, Num 0, Num 0], [Num 0, Num 0, Num 0]]"
proof -
  have "madd G_strain (np_transpose G_strain) =
     [[Num 2, Num 0, Num 0], [Num 0, Num (- 2), Num 0], [Num 0, Num 0, Num 0]]"
    by (simp add: linalg_defs G_strain_def upt_conv_Cons)
  moreover have "msub G_strain (np_transpose G_strain) =
     [[Num 0, Num 0, Num 0], [Num 0, Num 0, Num 0], [Num 0, Num 0, Num 0]]"
    by (simp add: linalg_defs G_strain_def upt_conv_Cons)
  ultimately show ?thesis
    by (simp add: calcInvariants_pure_strain_value)
qed

section \<open>Masks: selection and scatter\<close>


lemma length_scatter: "length (scatter bs ms vs) = length bs"
  by (induction bs ms vs rule: scatter.induct) auto

lemma count_true_Cons: "count_true (m # ms) = (if m then Suc (count_true ms) else count_true ms)"
  by (simp add: count_true_def)

lemma count_true_Nil: "count_true [] = 0"
  by (simp add: count_true_def)

lemma count_true_le: "count_true ms \<le> length ms"
  by (simp add: count_true_def)

lemma select_Cons: "select (m # ms) (x # xs) = (if m then x # select ms xs else select ms xs)"
  by (simp add: select_def)

lemma select_Nil: "select [] xs = []" "select ms [] = []"
  by (simp_all add: select_def)

lemma length_select: "length ms = length xs \<Longrightarrow> length (select ms xs) = count_true ms"
  by (induction ms xs rule: list_induct2) (auto simp: select_Cons select_Nil count_true_Cons count_true_Nil)

lemma select_scatter:
  "length ms = length bs \<Longrightarrow> length vs = count_true ms \<Longrightarrow> select ms (scatter bs ms vs) = vs"
  by (induction bs ms vs rule: scatter.induct)
     (auto simp: select_Cons select_Nil count_true_Cons count_true_Nil)

lemma scatter_False_nth:
  "length ms = length bs \<Longrightarrow> i < length ms \<Longrightarrow> \<not> ms ! i \<Longrightarrow> scatter bs ms vs ! i = bs ! i"
  by (induction bs ms vs arbitrary: i rule: scatter.induct)
     (auto simp: nth_Cons split: nat.splits)

lemma mask_assign_fits:
  "length m = length full \<Longrightarrow> length vals = count_true m \<Longrightarrow>
   mask_assign full m vals = Inr (scatter full m vals)"
  by (simp add: mask_assign_def)

lemma isotropic_value:
  "isotropic dp =
     [[Num (1 / dp), Num 0, Num 0], [Num 0, Num (1 / dp), Num 0], [Num 0, Num 0, Num (1 / dp)]]"
  by (simp add: isotropic_def upt_conv_Cons)

section \<open>fillPrt and fillAlpha scatter the values back\<close>

text \<open>
  C4. For a mask M and a positive default d: if V has as many entries as M has True
  positions and all are nonnegative, \<open>fillPrt\<close> returns an array as long as M that holds V at
  the True positions and d at every False position. Likewise, for 3 by 3 tensors with
  nonnegative diagonals, \<open>fillAlpha\<close> holds the supplied tensors at the True positions and,
  at every False position, the matrix with 1/d on the diagonal and 0 elsewhere.
\<close>

theorem fill_roundtrip:
  assumes "0 < dflt"
  shows "(length V = count_true M \<and> all_nonneg V \<longrightarrow>
           (\<exists>full. fillPrt c V M (Some dflt) = Inr full \<and> length full = length M \<and>
              select M full = V \<and> (\<forall>i<length M. \<not> M ! i \<longrightarrow> full ! i = Num dflt))) \<and>
         (length A = count_true M \<and> list_all is_3x3 A \<and> diag_nonneg A \<longrightarrow>
           (\<exists>full. fillAlpha c A M (Some dflt) = Inr full \<and> length full = length M \<and>
              select M full = A \<and>
              (\<forall>i<length M. \<not> M ! i \<longrightarrow>
                 full ! i = [[Num (1 / dflt), Num 0, Num 0],
                             [Num 0, Num (1 / dflt), Num 0],
                             [Num 0, Num 0, Num (1 / dflt)]])))"
proof (intro conjI impI)
  assume h: "length V = count_true M \<and> all_nonneg V"
  let ?full = "scatter (replicate (length M) (Num dflt)) M V"
  have "fillPrt c V M (Some dflt) = Inr ?full"
    using h assms by (simp add: fillPrt_def mask_assign_fits)
  moreover have "length ?full = length M"
    by (simp add: length_scatter)
  moreover have "select M ?full = V"
    using h by (simp add: select_scatter)
  moreover have "\<forall>i<length M. \<not> M ! i \<longrightarrow> ?full ! i = Num dflt"
    by (simp add: scatter_False_nth)
  ultimately show "\<exists>full. fillPrt c V M (Some dflt) = Inr full \<and> length full = length M \<and>
              select M full = V \<and> (\<forall>i<length M. \<not> M ! i \<longrightarrow> full ! i = Num dflt)"
    by blast
next
  assume h: "length A = count_true M \<and> list_all is_3x3 A \<and> diag_nonneg A"
  let ?full = "scatter (replicate (length M) (isotropic dflt)) M A"
  have "fillAlpha c A M (Some dflt) = Inr ?full"
    using h assms by (simp add: fillAlpha_def mask_assign_fits diag_nonneg_def)
  moreover have "length ?full = length M"
    by (simp add: length_scatter)
  moreover have "select M ?full = A"
    using h by (simp add: select_scatter)
  moreover have "\<forall>i<length M. \<not> M ! i \<longrightarrow> ?full ! i = isotropic dflt"
    by (simp add: scatter_False_nth)
  ultimately show "\<exists>full. fillAlpha c A M (Some dflt) = Inr full \<and> length full = length M \<and>
              select M full = A \<and>
              (\<forall>i<length M. \<not> M ! i \<longrightarrow>
                 full ! i = [[Num (1 / dflt), Num 0, Num 0],
                             [Num 0, Num (1 / dflt), Num 0],
                             [Num 0, Num 0, Num (1 / dflt)]])"
    unfolding isotropic_value by blast
qed

theorem fill_roundtrip_witness:
  "(0::real) < 1 / 2 \<and> length V_ex = count_true M_ex \<and> all_nonneg V_ex \<and>
   length A_ex = count_true M_ex \<and> list_all is_3x3 A_ex \<and> diag_nonneg A_ex \<and>
   (\<exists>full. fillPrt c_ex V_ex M_ex (Some (1 / 2)) = Inr full \<and> length full = 3 \<and>
      select M_ex full = V_ex \<and> full ! 1 = Num (1 / 2)) \<and>
   (\<exists>full. fillAlpha c_ex A_ex M_ex (Some (1 / 2)) = Inr full \<and> length full = 3 \<and>
      select M_ex full = A_ex \<and>
      full ! 1 = [[Num 2, Num 0, Num 0], [Num 0, Num 2, Num 0], [Num 0, Num 0, Num 2]])"
proof -
  have h: "(0::real) < 1 / 2" by simp
  have v: "length V_ex = count_true M_ex \<and> all_nonneg V_ex"
    by (simp add: V_ex_def M_ex_def count_true_def all_nonneg_def fge_def)
  have a: "length A_ex = count_true M_ex \<and> list_all is_3x3 A_ex \<and> diag_nonneg A_ex"
    by (simp add: A_ex_def M_ex_def count_true_def all_nonneg_def fge_def is_3x3_def diag_nonneg_def)
  have m: "length M_ex = 3" "\<not> M_ex ! 1" by (simp_all add: M_ex_def)
  from fill_roundtrip [OF h, of V_ex M_ex c_ex A_ex] v a m h show ?thesis
    by fastforce
qed

section \<open>The cleaning loop\<close>

lemma length_include_mask: "length (include_mask c X m) = length X"
  by (simp add: include_mask_def)

lemma clean_loop_length:
  "length (row_mask st) = length X \<Longrightarrow> length (row_mask (clean_loop c X k st)) = length X"
  by (induction k arbitrary: st) (auto simp: Let_def length_include_mask)

lemma loop_init_length: "length (row_mask (loop_init X)) = length X"
  by (simp add: loop_init_def)

lemma clean_loop_step:
  "0 < k \<Longrightarrow> clean_loop c X k st =
     (let new_mask = include_mask c X (row_mask st);
          new_cleaned_exs = length X - count_true new_mask;
          st1 = st\<lparr>row_mask := new_mask, cleaned_exs := Some new_cleaned_exs,
                   iterations := Suc (iterations st)\<rparr>
      in if converged (TOL c) (cleaned_exs st) new_cleaned_exs
         then st1\<lparr>warning_flag := False\<rparr>
         else if too_many_cleaned (MAX_CLEAN c) new_cleaned_exs (length X)
         then st1
         else clean_loop c X (k - 1) st1)"
  by (cases k) (simp_all add: Let_def)

text \<open>For finite values the two comparisons of the outlier test are one comparison of
  squares, which needs no square root.\<close>

lemma is_outlier_squares:
  assumes "0 \<le> k" "0 \<le> s"
  shows "is_outlier k (Num x) (Num m) (Num s) \<longleftrightarrow> k\<^sup>2 * s\<^sup>2 < (x - m)\<^sup>2"
proof -
  have nn: "0 \<le> k * s" using assms by simp
  have "is_outlier k (Num x) (Num m) (Num s) \<longleftrightarrow> k * s < \<bar>x - m\<bar>"
    by (auto simp: is_outlier_def fsub_def fgt_def)
  also have "\<dots> \<longleftrightarrow> \<not> \<bar>x - m\<bar> \<le> \<bar>k * s\<bar>" using nn by auto
  also have "\<dots> \<longleftrightarrow> \<not> (x - m)\<^sup>2 \<le> (k * s)\<^sup>2" by (simp only: abs_le_square_iff)
  finally show ?thesis by (auto simp: power_mult_distrib)
qed

lemma converged_zero: "\<not> converged tol (Some 0) new_cleaned_exs"
  by (simp add: converged_def inf_of_sign_def)

lemma count_true_replicate: "count_true (replicate n True) = n"
  by (simp add: count_true_def)

lemma not_too_many_zero: "0 \<le> mc \<Longrightarrow> \<not> too_many_cleaned mc 0 n"
  by (simp add: too_many_cleaned_def fgt_def inf_of_sign_def)

text \<open>While no row is flagged the loop neither converges nor stops: every remaining
  iteration is entered and the warning flag keeps its value.\<close>

lemma clean_loop_nothing_flagged:
  assumes "0 \<le> MAX_CLEAN c"
      and "include_mask c X (replicate (length X) True) = replicate (length X) True"
      and "row_mask st = replicate (length X) True"
      and "cleaned_exs st = None \<or> cleaned_exs st = Some 0"
  shows "row_mask (clean_loop c X k st) = replicate (length X) True \<and>
         warning_flag (clean_loop c X k st) = warning_flag st \<and>
         iterations (clean_loop c X k st) = iterations st + k"
  using assms(3,4)
proof (induction k arbitrary: st)
  case 0
  then show ?case by simp
next
  case (Suc k)
  let ?st1 = "st\<lparr>row_mask := replicate (length X) True, cleaned_exs := Some 0,
                   iterations := Suc (iterations st)\<rparr>"
  have nc: "\<not> converged (TOL c) (cleaned_exs st) 0"
    using Suc.prems(2) by (auto simp: converged_zero) (simp add: converged_def)
  have step: "clean_loop c X (Suc k) st = clean_loop c X k ?st1"
    using Suc.prems(1) assms(1,2) nc
    by (simp add: Let_def count_true_replicate not_too_many_zero)
  have "row_mask ?st1 = replicate (length X) True"
       "cleaned_exs ?st1 = None \<or> cleaned_exs ?st1 = Some 0"
    by simp_all
  from Suc.IH [OF this] step show ?case by simp
qed

subsection \<open>The runs on the example matrices\<close>

lemma c_ex_fields:
  "N_STD c_ex = 2" "MAX_ITER c_ex = 10" "TOL c_ex = 1 / 100" "MAX_CLEAN c_ex = 1 / 4"
  by (simp_all add: c_ex_def)

lemma X_ex_rows: "X_ex = [[Num 2, Num 0],
  [Num 0, Num 1], [Num 0, Num 1], [Num 0, Num 1], [Num 0, Num 1], [Num 0, Num 1],
  [Num 1, Num 0], [Num 1, Num 0], [Num 1, Num 0], [Num 1, Num 0], [Num 1, Num 0],
  [Num 1, Num 0], [Num 1, Num 0], [Num 1, Num 0], [Num 1, Num 0], [Num 1, Num 0],
  [Num (- 1), Num 0], [Num (- 1), Num 0], [Num (- 1), Num 0], [Num (- 1), Num 0],
  [Num (- 1), Num 0], [Num (- 1), Num 0], [Num (- 1), Num 0], [Num (- 1), Num 0],
  [Num (- 1), Num 0], [Num (- 1), Num 0]]"
  by (simp add: X_ex_def eval_nat_numeral)

lemma X_ex_all_rows: "replicate (length X_ex) True = replicate 26 True"
  by (simp add: X_ex_def)

lemmas stats_defs =
  col_stats_def n_columns_def select_def column_def np_mean_def np_std_def fsum_def fsub_def

text \<open>First iteration: the means are 1/13 and 5/26, the variances 155/169 and 105/676.
  Row 0 lies above 1/13 + 2 sqrt (155/169) in the first column, rows 1 to 5 above
  5/26 + 2 sqrt (105/676) in the second.\<close>

lemma X_ex_stats_first:
  "col_stats X_ex (replicate 26 True) =
     [(Num (1 / 13), Num (sqrt (155 / 169))), (Num (5 / 26), Num (sqrt (105 / 676)))]"
  by (simp add: X_ex_rows stats_defs upt_conv_Cons eval_nat_numeral)

lemma X_ex_mask_first: "include_mask c_ex X_ex (replicate 26 True) = mask1_ex"
  unfolding include_mask_def X_ex_stats_first
  by (simp add: X_ex_rows c_ex_fields row_flagged_def is_outlier_squares mask1_ex_def
      eval_nat_numeral)

text \<open>Second iteration, over the 20 rows left: means 0 and 0, deviations 1 and 0. Row 0
  is inside [-2, 2] and [0, 0] and is included again.\<close>

lemma X_ex_stats_second: "col_stats X_ex mask1_ex = [(Num 0, Num 1), (Num 0, Num 0)]"
  by (simp add: X_ex_rows mask1_ex_def stats_defs upt_conv_Cons eval_nat_numeral)

lemma X_ex_mask_second: "include_mask c_ex X_ex mask1_ex = mask2_ex"
  unfolding include_mask_def X_ex_stats_second
  by (simp add: X_ex_rows c_ex_fields row_flagged_def is_outlier_squares mask2_ex_def
      eval_nat_numeral)

lemma X_ex_counts: "count_true mask1_ex = 20" "count_true mask2_ex = 21" "length X_ex = 26"
  by (simp_all add: mask1_ex_def mask2_ex_def count_true_def X_ex_def)

lemma X_ex_loop:
  "clean_loop c_ex X_ex (MAX_ITER c_ex) (loop_init X_ex) =
     \<lparr>row_mask = mask2_ex, cleaned_exs = Some 5, warning_flag = False, iterations = 2\<rparr>"
  by (simp add: clean_loop_step loop_init_def X_ex_all_rows X_ex_mask_first X_ex_mask_second
      X_ex_counts converged_def too_many_cleaned_def fgt_def c_ex_fields Let_def)

lemma X_small_nothing_flagged:
  "include_mask c_ex X_small (replicate (length X_small) True) = replicate (length X_small) True"
proof -
  have "col_stats X_small (replicate 2 True) = [(Num (1 / 2), Num (sqrt (1 / 4))), (Num 3, Num 0)]"
    by (simp add: X_small_def stats_defs upt_conv_Cons eval_nat_numeral)
  then show ?thesis
    by (simp add: include_mask_def X_small_def c_ex_fields row_flagged_def is_outlier_squares
        eval_nat_numeral)
qed

subsection \<open>The inclusion mask from one iteration to the next\<close>

text \<open>
  C3 as stated fails: the number of included rows can increase from one iteration to the
  next, and a row excluded in one iteration can be included in the following one. On
  \<open>X_ex\<close> the first iteration includes 20 rows and excludes row 0, the second includes 21
  rows, row 0 among them; the loop then stops as converged and \<open>cleanFeatures\<close> returns the
  second mask.
\<close>

theorem clean_mask_grows_counterexample:
  "include_mask c_ex X_ex (replicate (length X_ex) True) = mask1_ex \<and>
   include_mask c_ex X_ex mask1_ex = mask2_ex \<and>
   count_true mask1_ex < count_true mask2_ex \<and>
   \<not> mask1_ex ! 0 \<and> mask2_ex ! 0 \<and>
   row_mask (clean_loop c_ex X_ex (MAX_ITER c_ex) (loop_init X_ex)) = mask2_ex \<and>
   iterations (clean_loop c_ex X_ex (MAX_ITER c_ex) (loop_init X_ex)) = 2 \<and>
   cleanFeatures c_ex X_ex (replicate 26 True) (None :: unit list option) =
     Inr (select mask2_ex X_ex, mask2_ex, None)"
proof -
  have "scatter (replicate 26 False) (replicate 26 True) mask2_ex = mask2_ex"
    by (simp add: mask2_ex_def eval_nat_numeral)
  then have "cleanFeatures c_ex X_ex (replicate 26 True) (None :: unit list option) =
     Inr (select mask2_ex X_ex, mask2_ex, None)"
    by (simp add: cleanFeatures_def X_ex_loop then_do_def mask_assign_def count_true_replicate
        X_ex_counts length_include_mask [of c_ex X_ex mask1_ex, unfolded X_ex_mask_second])
  moreover have "\<not> mask1_ex ! 0" "mask2_ex ! 0"
    by (simp_all add: mask1_ex_def mask2_ex_def eval_nat_numeral)
  ultimately show ?thesis
    by (simp add: X_ex_all_rows X_ex_mask_first X_ex_mask_second X_ex_counts X_ex_loop)
qed

text \<open>
  C3, amended. In every iteration the inclusion mask has one entry for each input row, so
  the included rows are among the input rows and are never more than these; this holds
  for the mask computed from any current mask and for the mask the loop ends with.
  Each iteration tests all rows again, so nothing is said about two successive masks.
\<close>

theorem clean_mask_within_rows:
  "length (include_mask c X m) = length X \<and>
   count_true (include_mask c X m) \<le> length X \<and>
   length (row_mask (clean_loop c X k (loop_init X))) = length X \<and>
   count_true (row_mask (clean_loop c X k (loop_init X))) \<le> length X"
proof -
  have a: "length (include_mask c X m) = length X"
    by (rule length_include_mask)
  have b: "length (row_mask (clean_loop c X k (loop_init X))) = length X"
    by (simp add: clean_loop_length loop_init_length)
  from a b count_true_le [of "include_mask c X m"]
    count_true_le [of "row_mask (clean_loop c X k (loop_init X))"]
  show ?thesis by simp
qed

theorem clean_mask_within_rows_witness:
  "length (include_mask c_ex X_ex mask1_ex) = 26 \<and>
   count_true (include_mask c_ex X_ex mask1_ex) \<le> 26 \<and>
   length (row_mask (clean_loop c_ex X_ex 10 (loop_init X_ex))) = 26 \<and>
   count_true (row_mask (clean_loop c_ex X_ex 10 (loop_init X_ex))) \<le> 26"
  using clean_mask_within_rows [of c_ex X_ex mask1_ex 10] by (simp add: X_ex_counts)

subsection \<open>The mask that cleanFeatures returns\<close>

lemma count_true_scatter_False:
  "length ms = n \<Longrightarrow> length vs = count_true ms \<Longrightarrow>
   count_true (scatter (replicate n False) ms vs) = count_true vs"
proof (induction ms arbitrary: n vs)
  case Nil
  then show ?case by (simp add: count_true_Nil)
next
  case (Cons m ms)
  then obtain k where n: "n = Suc k" by (cases n) auto
  show ?case
  proof (cases m)
    case True
    with Cons.prems obtain v vs' where vs: "vs = v # vs'"
      by (cases vs) (auto simp: count_true_Cons)
    with Cons True n show ?thesis by (simp add: count_true_Cons)
  next
    case False
    with Cons n show ?thesis by (simp add: count_true_Cons)
  qed
qed

lemma scatter_False_implies:
  assumes "length ms = n" "i < n" "scatter (replicate n False) ms vs ! i"
  shows "ms ! i"
proof (rule ccontr)
  assume "\<not> ms ! i"
  with assms(1,2) have "scatter (replicate n False) ms vs ! i = replicate n False ! i"
    by (simp add: scatter_False_nth)
  with assms show False by simp
qed

text \<open>
  C8. When the gating mask has as many True positions as the feature matrix has rows (and
  the tensor basis, when one is passed, has as many rows), \<open>cleanFeatures\<close> returns. The
  new mask is the gating mask with the cleaned-out rows unset: it is as long as
  \<open>should_use\<close>, every True position of it is a True position of \<open>should_use\<close>, and read at
  the True positions of \<open>should_use\<close> it is the inclusion mask that the cleaning loop ends
  with. The cleaned feature matrix and the cleaned tensor basis are the rows of that
  inclusion mask, so the True-count of the new mask is the row count of both.
\<close>

theorem cleanFeatures_mask_counts:
  assumes "count_true should_use = length x_features"
      and "case tensor_basis of None \<Rightarrow> True | Some tb \<Rightarrow> length tb = length x_features"
  shows "\<exists>new_x new_su new_tb.
           cleanFeatures c x_features should_use tensor_basis = Inr (new_x, new_su, new_tb) \<and>
           length new_su = length should_use \<and>
           (\<forall>i<length should_use. new_su ! i \<longrightarrow> should_use ! i) \<and>
           select should_use new_su =
             row_mask (clean_loop c x_features (MAX_ITER c) (loop_init x_features)) \<and>
           new_x =
             select (row_mask (clean_loop c x_features (MAX_ITER c) (loop_init x_features)))
               x_features \<and>
           new_tb =
             map_option
               (select (row_mask (clean_loop c x_features (MAX_ITER c) (loop_init x_features))))
               tensor_basis \<and>
           count_true new_su = length new_x \<and>
           (case new_tb of None \<Rightarrow> tensor_basis = None
            | Some b \<Rightarrow> tensor_basis \<noteq> None \<and> length b = count_true new_su)"
proof -
  let ?m = "row_mask (clean_loop c x_features (MAX_ITER c) (loop_init x_features))"
  let ?su = "scatter (replicate (length should_use) False) should_use ?m"
  have len: "length ?m = length x_features"
    by (simp add: clean_loop_length loop_init_length)
  have assign: "mask_assign (replicate (length should_use) False) should_use ?m = Inr ?su"
    using assms(1) len by (simp add: mask_assign_fits)
  have a: "length ?su = length should_use"
    by (simp add: length_scatter)
  have b: "\<forall>i<length should_use. ?su ! i \<longrightarrow> should_use ! i"
    using scatter_False_implies by blast
  have c: "count_true ?su = length (select ?m x_features)"
    using assms(1) len by (simp add: count_true_scatter_False length_select)
  have d: "select should_use ?su = ?m"
    using assms(1) len by (simp add: select_scatter)
  show ?thesis
  proof (cases tensor_basis)
    case None
    then have "cleanFeatures c x_features should_use tensor_basis =
        Inr (select ?m x_features, ?su, None)"
      by (simp add: cleanFeatures_def Let_def assign then_do_def)
    with a b c d None show ?thesis by simp
  next
    case (Some tb)
    with assms(2) len have tb: "length tb = length ?m" by simp
    with Some have "cleanFeatures c x_features should_use tensor_basis =
        Inr (select ?m x_features, ?su, Some (select ?m tb))"
      by (simp add: cleanFeatures_def Let_def assign then_do_def mask_index_def)
    moreover have "length (select ?m tb) = count_true ?su"
      using tb len c by (simp add: length_select)
    ultimately show ?thesis using a b c d Some by simp
  qed
qed

text \<open>On \<open>X_ex\<close> the loop ends with 21 of the 26 rows; with the gating mask \<open>su_gap\<close> the
  new mask keeps the cell that was not gated unset and unsets the five cleaned rows.\<close>

lemma select_mask2_tb26: "select mask2_ex tb26 = 0 # [6..<26]"
  by (simp add: select_def mask2_ex_def tb26_def upt_conv_Cons eval_nat_numeral)

lemma cleanFeatures_X_ex_gap:
  "cleanFeatures c_ex X_ex su_gap (Some tb26) =
     Inr (select mask2_ex X_ex, new_su_gap, Some (0 # [6..<26]))"
proof -
  have "scatter (replicate 27 False) su_gap mask2_ex = new_su_gap"
    by (simp add: su_gap_def mask2_ex_def new_su_gap_def eval_nat_numeral)
  moreover have "length su_gap = 27" "count_true su_gap = 26" "length mask2_ex = 26"
    "length tb26 = 26"
    by (simp_all add: su_gap_def mask2_ex_def tb26_def count_true_def)
  ultimately show ?thesis
    by (simp add: cleanFeatures_def X_ex_loop then_do_def mask_assign_def mask_index_def
        select_mask2_tb26)
qed

theorem cleanFeatures_mask_counts_witness:
  "count_true su_gap = length X_ex \<and> length tb26 = length X_ex \<and>
   count_true mask2_ex < length X_ex \<and>
   (\<exists>new_x new_su new_tb.
      cleanFeatures c_ex X_ex su_gap (Some tb26) = Inr (new_x, new_su, Some new_tb) \<and>
      new_su = new_su_gap \<and> length new_su = 27 \<and> \<not> new_su ! 1 \<and>
      select su_gap new_su = mask2_ex \<and>
      new_x = select mask2_ex X_ex \<and> new_tb = 0 # [6..<26] \<and>
      count_true new_su = 21 \<and> length new_x = 21 \<and> length new_tb = 21)"
proof -
  let ?m = "row_mask (clean_loop c_ex X_ex (MAX_ITER c_ex) (loop_init X_ex))"
  have h1: "count_true su_gap = length X_ex"
    by (simp add: su_gap_def X_ex_def count_true_def)
  have h2: "case Some tb26 of None \<Rightarrow> True | Some tb \<Rightarrow> length tb = length X_ex"
    by (simp add: tb26_def X_ex_def)
  have s: "length su_gap = 27" "\<not> su_gap ! 1" "length tb26 = length X_ex" "1 < length su_gap"
    by (simp_all add: su_gap_def tb26_def X_ex_def)
  have n: "count_true mask2_ex < length X_ex"
    by (simp add: X_ex_counts)
  have fin: "?m = mask2_ex"
    by (simp add: X_ex_loop)
  from cleanFeatures_mask_counts [OF h1 h2, of c_ex]
  obtain new_x new_su new_tb where
    r: "cleanFeatures c_ex X_ex su_gap (Some tb26) = Inr (new_x, new_su, new_tb)" and
    l: "length new_su = length su_gap" and
    i: "\<forall>i<length su_gap. new_su ! i \<longrightarrow> su_gap ! i" and
    m: "select su_gap new_su = ?m" and
    x: "new_x = select ?m X_ex" and
    c: "count_true new_su = length new_x"
    by blast
  from r have e: "new_x = select mask2_ex X_ex" "new_su = new_su_gap"
    "new_tb = Some (0 # [6..<26])"
    by (simp_all add: cleanFeatures_X_ex_gap)
  have l27: "length new_su = 27" using l s(1) by simp
  have g: "\<not> new_su ! 1" using i s(2,4) by blast
  have sm: "select su_gap new_su = mask2_ex" using m fin by simp
  have lx: "length new_x = 21"
    using x fin by (simp add: length_select mask2_ex_def X_ex_def count_true_def)
  have cn: "count_true new_su = 21" using c lx by simp
  have lt: "length (0 # [6..<26] :: nat list) = 21" by simp
  from r e l27 g sm lx cn lt
  have "cleanFeatures c_ex X_ex su_gap (Some tb26) = Inr (new_x, new_su, Some (0 # [6..<26])) \<and>
      new_su = new_su_gap \<and> length new_su = 27 \<and> \<not> new_su ! 1 \<and>
      select su_gap new_su = mask2_ex \<and>
      new_x = select mask2_ex X_ex \<and> (0 # [6..<26] :: nat list) = 0 # [6..<26] \<and>
      count_true new_su = 21 \<and> length new_x = 21 \<and> length (0 # [6..<26] :: nat list) = 21"
    by (intro conjI) simp_all
  then have "\<exists>new_x new_su new_tb.
      cleanFeatures c_ex X_ex su_gap (Some tb26) = Inr (new_x, new_su, Some new_tb) \<and>
      new_su = new_su_gap \<and> length new_su = 27 \<and> \<not> new_su ! 1 \<and>
      select su_gap new_su = mask2_ex \<and>
      new_x = select mask2_ex X_ex \<and> new_tb = 0 # [6..<26] \<and>
      count_true new_su = 21 \<and> length new_x = 21 \<and> length new_tb = 21"
    by (intro exI)
  with h1 s(3) n show ?thesis by (intro conjI)
qed

subsection \<open>A zero count of cleaned rows\<close>

lemma select_all_rows: "select (replicate (length X) True) X = X"
  by (induction X) (simp_all add: select_Nil select_Cons)

text \<open>
  C10. The convergence test divides by the count of the previous iteration; when that
  count is zero the test fails, whatever the tolerance and the new count. So for a matrix
  in which no row is flagged (the count stays zero) and a nonnegative \<open>MAX_CLEAN\<close>, the loop
  enters all \<open>MAX_ITER\<close> iterations and ends with the warning flag set, although every
  row is kept.
\<close>

theorem zero_cleaned_never_converges:
  "\<not> converged tol (Some 0) new_cleaned_exs \<and>
   (0 \<le> MAX_CLEAN c \<and>
    include_mask c X (replicate (length X) True) = replicate (length X) True \<longrightarrow>
      iterations (clean_loop c X (MAX_ITER c) (loop_init X)) = MAX_ITER c \<and>
      warning_flag (clean_loop c X (MAX_ITER c) (loop_init X)) \<and>
      row_mask (clean_loop c X (MAX_ITER c) (loop_init X)) = replicate (length X) True \<and>
      select (row_mask (clean_loop c X (MAX_ITER c) (loop_init X))) X = X)"
proof (intro conjI impI)
  show "\<not> converged tol (Some 0) new_cleaned_exs" by (rule converged_zero)
next
  assume h: "0 \<le> MAX_CLEAN c \<and>
    include_mask c X (replicate (length X) True) = replicate (length X) True"
  have "row_mask (loop_init X) = replicate (length X) True"
       "cleaned_exs (loop_init X) = None \<or> cleaned_exs (loop_init X) = Some 0"
    by (simp_all add: loop_init_def)
  from clean_loop_nothing_flagged [OF conjunct1 [OF h] conjunct2 [OF h] this, of "MAX_ITER c"]
  have r: "row_mask (clean_loop c X (MAX_ITER c) (loop_init X)) = replicate (length X) True"
    and w: "warning_flag (clean_loop c X (MAX_ITER c) (loop_init X))"
    and i: "iterations (clean_loop c X (MAX_ITER c) (loop_init X)) = MAX_ITER c"
    by (simp_all add: loop_init_def)
  show "iterations (clean_loop c X (MAX_ITER c) (loop_init X)) = MAX_ITER c" by (rule i)
  show "warning_flag (clean_loop c X (MAX_ITER c) (loop_init X))" by (rule w)
  show "row_mask (clean_loop c X (MAX_ITER c) (loop_init X)) = replicate (length X) True"
    by (rule r)
  show "select (row_mask (clean_loop c X (MAX_ITER c) (loop_init X))) X = X"
    unfolding r by (rule select_all_rows)
qed

theorem zero_cleaned_never_converges_witness:
  "0 \<le> MAX_CLEAN c_ex \<and>
   include_mask c_ex X_small (replicate (length X_small) True) =
     replicate (length X_small) True \<and>
   \<not> converged (TOL c_ex) (Some 0) 0 \<and>
   iterations (clean_loop c_ex X_small (MAX_ITER c_ex) (loop_init X_small)) = 10 \<and>
   warning_flag (clean_loop c_ex X_small (MAX_ITER c_ex) (loop_init X_small)) \<and>
   select (row_mask (clean_loop c_ex X_small (MAX_ITER c_ex) (loop_init X_small))) X_small =
     X_small"
  using zero_cleaned_never_converges [of "TOL c_ex" 0 c_ex X_small] X_small_nothing_flagged
  by (simp add: c_ex_fields select_all_rows)

section \<open>Validation at construction\<close>

lemma has_negative_not_nonneg: "has_negative a \<Longrightarrow> \<not> all_nonneg a"
proof -
  have "flt x (Num 0) \<Longrightarrow> \<not> fge x (Num 0)" for x
    by (cases x) (simp_all add: fge_def)
  then show "has_negative a \<Longrightarrow> \<not> all_nonneg a"
    by (auto simp: has_negative_def all_nonneg_def list_ex_iff list_all_iff)
qed

lemma nonDimensionalize_fields:
  "n_points (nonDimensionalize self dT) = n_points self"
  "rho (nonDimensionalize self dT) = rho self"
  "mut (nonDimensionalize self dT) = mut self"
  "mode (nonDimensionalize self dT) = mode self"
  by (simp_all add: nonDimensionalize_def)

lemma check_feature: "mode self = FeatureMode f \<Longrightarrow>
   check self = (if feature_valid self f then Inr () else Inl AssertionError)"
  by (auto simp: check_def feature_valid_def)

lemma init_feature: "mode loaded = FeatureMode f \<Longrightarrow>
   MeanFlowQuantities_init loaded dT =
     (if feature_valid loaded f then Inr (nonDimensionalize loaded dT) else Inl AssertionError)"
  by (simp add: MeanFlowQuantities_init_def Let_def check_feature nonDimensionalize_fields
      feature_valid_def)

text \<open>
  C9. In feature mode the construction fails with an AssertionError (the spec's
  ValidationError) whenever density, turbulent viscosity, turbulence kinetic energy,
  dissipation rate, molecular viscosity or wall distance has a negative entry or a length
  other than the cell count. When the construction succeeds, all six arrays have the
  length of the cell count and no entry below zero; and it succeeds on every such input.
\<close>

theorem init_feature_mode_validates:
  assumes "mode loaded = FeatureMode f"
  shows "(has_negative (rho loaded) \<or> has_negative (mut loaded) \<or> has_negative (tke f) \<or>
          has_negative (epsilon f) \<or> has_negative (mu f) \<or> has_negative (self_d f) \<or>
          length (rho loaded) \<noteq> n_points loaded \<or> length (mut loaded) \<noteq> n_points loaded \<or>
          length (tke f) \<noteq> n_points loaded \<or> length (epsilon f) \<noteq> n_points loaded \<or>
          length (mu f) \<noteq> n_points loaded \<or> length (self_d f) \<noteq> n_points loaded
          \<longrightarrow> MeanFlowQuantities_init loaded deltaT0 = Inl AssertionError) \<and>
         (\<forall>self. MeanFlowQuantities_init loaded deltaT0 = Inr self \<longrightarrow>
            mode self = FeatureMode f \<and> feature_valid self f) \<and>
         (feature_valid loaded f \<longrightarrow>
            MeanFlowQuantities_init loaded deltaT0 = Inr (nonDimensionalize loaded deltaT0))"
proof (intro conjI impI allI)
  assume "has_negative (rho loaded) \<or> has_negative (mut loaded) \<or> has_negative (tke f) \<or>
          has_negative (epsilon f) \<or> has_negative (mu f) \<or> has_negative (self_d f) \<or>
          length (rho loaded) \<noteq> n_points loaded \<or> length (mut loaded) \<noteq> n_points loaded \<or>
          length (tke f) \<noteq> n_points loaded \<or> length (epsilon f) \<noteq> n_points loaded \<or>
          length (mu f) \<noteq> n_points loaded \<or> length (self_d f) \<noteq> n_points loaded"
  then have "\<not> feature_valid loaded f"
    using has_negative_not_nonneg by (auto simp: feature_valid_def)
  then show "MeanFlowQuantities_init loaded deltaT0 = Inl AssertionError"
    using assms by (simp add: init_feature)
next
  fix self
  assume ok: "MeanFlowQuantities_init loaded deltaT0 = Inr self"
  then have v: "feature_valid loaded f" and s: "self = nonDimensionalize loaded deltaT0"
    using assms by (auto simp: init_feature split: if_splits)
  show "mode self = FeatureMode f"
    using assms s by (simp add: nonDimensionalize_fields)
  show "feature_valid self f"
    using v s by (simp add: feature_valid_def nonDimensionalize_fields)
next
  assume "feature_valid loaded f"
  then show "MeanFlowQuantities_init loaded deltaT0 = Inr (nonDimensionalize loaded deltaT0)"
    using assms by (simp add: init_feature)
qed

lemma mfq_feat_valid: "feature_valid mfq_feat feat_ex"
  by (simp add: feature_valid_def mfq_feat_def feat_ex_def all_nonneg_def fge_def)

theorem init_feature_mode_validates_witness:
  "mode mfq_bad = FeatureMode feat_ex \<and> has_negative (rho mfq_bad) \<and>
   MeanFlowQuantities_init mfq_bad 1 = Inl AssertionError \<and>
   mode mfq_feat = FeatureMode feat_ex \<and> feature_valid mfq_feat feat_ex \<and>
   MeanFlowQuantities_init mfq_feat 1 = Inr mfq_feat"
proof -
  have b: "mode mfq_bad = FeatureMode feat_ex" "has_negative (rho mfq_bad)"
    by (simp_all add: mfq_bad_def mfq_feat_def has_negative_def)
  have g: "mode mfq_feat = FeatureMode feat_ex"
    by (simp add: mfq_feat_def)
  have n: "nonDimensionalize mfq_feat 1 = mfq_feat"
    by (simp add: nonDimensionalize_def labels_def mfq_feat_def)
  from init_feature_mode_validates [OF b(1), of 1] init_feature_mode_validates [OF g, of 1]
    b g n mfq_feat_valid
  show ?thesis by simp
qed

section \<open>Broadcasting succeeds on fitting shapes\<close>

lemma collect_Inr_map: "collect (map (\<lambda>z. Inr (k z)) zs) = Inr (map k zs)"
  by (induction zs) simp_all

lemma bc1_same_length:
  "length xs = length ys \<Longrightarrow> bc1 f xs ys = Inr (map2 f xs ys)"
proof -
  assume "length xs = length ys"
  then have "bc1 f xs ys = collect (map (\<lambda>z. Inr (case z of (x, y) \<Rightarrow> f x y)) (zip xs ys))"
    by (simp add: bc1_def bcast_def case_prod_unfold)
  then show ?thesis by (simp add: collect_Inr_map)
qed

lemma collect_exists:
  "list_all (\<lambda>z. \<exists>y. h z = Inr y \<and> P y) zs \<Longrightarrow>
   \<exists>ys. collect (map h zs) = Inr ys \<and> length ys = length zs \<and> list_all P ys"
  by (induction zs) auto

lemma bc1_row3:
  assumes "(length r = 3 \<and> length s = 3) \<or> (length r = 3 \<and> length s = 1) \<or>
           (length r = 1 \<and> length s = 3)"
  shows "\<exists>y. bc1 f r s = Inr y \<and> length y = 3"
  using assms by (auto simp: bc1_def bcast_def collect_Inr_map case_prod_unfold)

lemma bc2_rows3:
  assumes "length A = n" "length B = n" "list_all (\<lambda>z. row_fit (fst z) (snd z)) (zip A B)"
  shows "\<exists>C. bc2 f A B = Inr C \<and> rows3 n C"
proof -
  have "list_all (\<lambda>z. \<exists>y. (case z of (r, s) \<Rightarrow> bc1 f r s) = Inr y \<and> length y = 3) (zip A B)"
    using assms(3) bc1_row3 [of _ _ f]
    by (auto simp: list_all_iff row_fit_def)
  from collect_exists [OF this] assms(1,2) show ?thesis
    by (auto simp: bc2_def bcast_def rows3_def)
qed

lemma bc2_33:
  assumes "rows3 n A" "rows3 n B"
  shows "\<exists>C. bc2 f A B = Inr C \<and> rows3 n C"
proof (rule bc2_rows3)
  show "length A = n" "length B = n" using assms by (simp_all add: rows3_def)
  show "list_all (\<lambda>z. row_fit (fst z) (snd z)) (zip A B)"
    unfolding list_all_iff
  proof
    fix z assume "z \<in> set (zip A B)"
    then have "fst z \<in> set A" "snd z \<in> set B"
      by (metis prod.collapse set_zip_leftD, metis prod.collapse set_zip_rightD)
    with assms show "row_fit (fst z) (snd z)"
      by (simp add: rows3_def list_all_iff row_fit_def)
  qed
qed

lemma bc2_31:
  assumes "rows3 n A" "length t = n"
  shows "\<exists>C. bc2 f A (map (\<lambda>x. [x]) t) = Inr C \<and> rows3 n C"
proof (rule bc2_rows3)
  show "length A = n" "length (map (\<lambda>x. [x]) t) = n" using assms by (simp_all add: rows3_def)
  show "list_all (\<lambda>z. row_fit (fst z) (snd z)) (zip A (map (\<lambda>x. [x]) t))"
    unfolding list_all_iff
  proof
    fix z assume "z \<in> set (zip A (map (\<lambda>x. [x]) t))"
    then have "fst z \<in> set A" "snd z \<in> set (map (\<lambda>x. [x]) t)"
      by (metis prod.collapse set_zip_leftD, metis prod.collapse set_zip_rightD)
    with assms show "row_fit (fst z) (snd z)"
      by (auto simp: rows3_def list_all_iff row_fit_def)
  qed
qed

lemma bc2_13:
  assumes "length A = n" "rows3 n B"
  shows "\<exists>C. bc2 f (map (\<lambda>r. [g r]) A) B = Inr C \<and> rows3 n C"
proof (rule bc2_rows3)
  show "length (map (\<lambda>r. [g r]) A) = n" "length B = n" using assms by (simp_all add: rows3_def)
  show "list_all (\<lambda>z. row_fit (fst z) (snd z)) (zip (map (\<lambda>r. [g r]) A) B)"
    unfolding list_all_iff
  proof
    fix z assume "z \<in> set (zip (map (\<lambda>r. [g r]) A) B)"
    then have "fst z \<in> set (map (\<lambda>r. [g r]) A)" "snd z \<in> set B"
      by (metis prod.collapse set_zip_leftD, metis prod.collapse set_zip_rightD)
    with assms show "row_fit (fst z) (snd z)"
      by (auto simp: rows3_def list_all_iff row_fit_def)
  qed
qed

lemma rows3_map_map: "rows3 n A \<Longrightarrow> rows3 n (map (map g) A)"
  by (auto simp: rows3_def list_all_iff)

lemma bc1_right_single: "length xs \<noteq> 1 \<Longrightarrow> bc1 f xs [y] = Inr (map (\<lambda>x. f x y) xs)"
  by (simp add: bc1_def bcast_def collect_Inr_map)

lemma bc1_left_single: "length ys \<noteq> 1 \<Longrightarrow> bc1 f [x] ys = Inr (map (f x) ys)"
  by (simp add: bc1_def bcast_def collect_Inr_map)

lemmas bc_eval =
  bc2_def bcast_def bc1_same_length bc1_right_single bc1_left_single then_do_def
  row_sums_def fsum_def inf_of_sign_def

section \<open>The gating mask and its threshold\<close>

lemma fge_antitone: "t1 \<le> t2 \<Longrightarrow> fge g (Num t2) \<Longrightarrow> fge g (Num t1)"
  by (cases g) (simp_all add: fge_def)

lemma count_true_map_mono:
  "(\<And>x. P x \<Longrightarrow> Q x) \<Longrightarrow> count_true (map P xs) \<le> count_true (map Q xs)"
  by (induction xs) (auto simp: count_true_Cons count_true_Nil)

text \<open>
  C5, amended. For thresholds t1 \<le> t2 the two calls fail alike or both return a mask; the
  masks have one length, the True-count at t2 is at most the True-count at t1, and the
  mask at t2 pointwise implies the mask at t1: every cell selected at t2 is selected at
  t1. On a feature-mode container whose arrays have one length the call returns a mask of
  that length.
\<close>

theorem calculateShouldUse_threshold:
  assumes "t1 \<le> t2"
  shows "((\<exists>e. calculateShouldUse mfq t1 = Inl e \<and> calculateShouldUse mfq t2 = Inl e) \<or>
          (\<exists>m1 m2. calculateShouldUse mfq t1 = Inr m1 \<and> calculateShouldUse mfq t2 = Inr m2 \<and>
             length m1 = length m2 \<and> count_true m2 \<le> count_true m1 \<and>
             (\<forall>i<length m2. m2 ! i \<longrightarrow> m1 ! i))) \<and>
         (mode mfq = FeatureMode f \<and> length (tke f) = length (gradT mfq) \<and>
          length (epsilon f) = length (gradT mfq) \<longrightarrow>
            (\<exists>m1. calculateShouldUse mfq t1 = Inr m1 \<and> length m1 = length (gradT mfq)))"
proof (intro conjI impI)
  show "(\<exists>e. calculateShouldUse mfq t1 = Inl e \<and> calculateShouldUse mfq t2 = Inl e) \<or>
          (\<exists>m1 m2. calculateShouldUse mfq t1 = Inr m1 \<and> calculateShouldUse mfq t2 = Inr m2 \<and>
             length m1 = length m2 \<and> count_true m2 \<le> count_true m1 \<and>
             (\<forall>i<length m2. m2 ! i \<longrightarrow> m1 ! i))"
  proof (cases "nondim_grad_mag mfq")
    case (Inl e)
    then show ?thesis by (simp add: calculateShouldUse_def then_do_def)
  next
    case (Inr g)
    let ?m1 = "map (\<lambda>x. fge x (Num t1)) g" and ?m2 = "map (\<lambda>x. fge x (Num t2)) g"
    have "calculateShouldUse mfq t1 = Inr ?m1" "calculateShouldUse mfq t2 = Inr ?m2"
      using Inr by (simp_all add: calculateShouldUse_def then_do_def)
    moreover have "count_true ?m2 \<le> count_true ?m1"
      using assms by (intro count_true_map_mono) (rule fge_antitone)
    moreover have "\<forall>i<length ?m2. ?m2 ! i \<longrightarrow> ?m1 ! i"
      using assms fge_antitone by simp
    ultimately show ?thesis by simp
  qed
next
  assume h: "mode mfq = FeatureMode f \<and> length (tke f) = length (gradT mfq) \<and>
          length (epsilon f) = length (gradT mfq)"
  then have "nondim_grad_mag mfq =
      Inr (map2 fmul (map fsqrt (row_sums (map (map (\<lambda>x. fmul x x)) (gradT mfq))))
             (map2 fdiv (map fpow15 (tke f)) (epsilon f)))"
    by (simp add: nondim_grad_mag_def then_do_def bc1_same_length row_sums_def)
  then show "\<exists>m1. calculateShouldUse mfq t1 = Inr m1 \<and> length m1 = length (gradT mfq)"
    using h by (simp add: calculateShouldUse_def then_do_def row_sums_def)
qed

lemma mfq_feat_grad_mag: "nondim_grad_mag mfq_feat = Inr [Num 1, Num 0, NaN]"
  by (simp add: nondim_grad_mag_def mfq_feat_def feat_ex_def then_do_def bc1_same_length
      row_sums_def fsum_def inf_of_sign_def)

theorem calculateShouldUse_threshold_witness:
  "(0::real) \<le> 1 / 2 \<and>
   calculateShouldUse mfq_feat 0 = Inr [True, True, False] \<and>
   calculateShouldUse mfq_feat (1 / 2) = Inr [True, False, False] \<and>
   count_true [True, False, False] \<le> count_true [True, True, False]"
proof -
  have h: "(0::real) \<le> 1 / 2" by simp
  have a: "calculateShouldUse mfq_feat 0 = Inr [True, True, False]"
       "calculateShouldUse mfq_feat (1 / 2) = Inr [True, False, False]"
    by (simp_all add: calculateShouldUse_def then_do_def mfq_feat_grad_mag fge_def)
  from calculateShouldUse_threshold [OF h, of mfq_feat feat_ex] h a show ?thesis
    by simp
qed

text \<open>
  C5 as stated asks, in its last part, that the mask at t2 be implied by the mask at t1.
  That direction fails: the second cell of \<open>mfq_feat\<close> has magnitude 0 and is selected at
  threshold 0 but not at threshold 1/2.
\<close>

theorem calculateShouldUse_implication_counterexample:
  "(0::real) \<le> 1 / 2 \<and>
   calculateShouldUse mfq_feat 0 = Inr [True, True, False] \<and>
   calculateShouldUse mfq_feat (1 / 2) = Inr [True, False, False] \<and>
   \<not> ([True, True, False] ! 1 \<longrightarrow> [True, False, False] ! 1)"
  by (simp add: calculateShouldUse_def then_do_def mfq_feat_grad_mag fge_def)

section \<open>The clipping of gamma\<close>

lemma clip_in_range:
  assumes "1 \<le> cap"
  shows "clip_below (1 / cap) (clip_above cap g) = NaN \<or>
         in_range (1 / cap) cap (clip_below (1 / cap) (clip_above cap g))"
proof -
  have "1 / cap \<le> 1" using assms by simp
  with assms have "1 / cap \<le> cap" by linarith
  then show ?thesis
    by (cases g) (auto simp: clip_below_def clip_above_def in_range_def fgt_def)
qed

lemma gamma_ratio_shaped:
  assumes "length tp = n" "length bt = n" "length (rho mfq) = n" "length (mut mfq) = n"
  shows "\<exists>g. gamma_ratio tp bt mfq = Inr g \<and> length g = n"
  using assms by (simp add: gamma_ratio_def then_do_def bc1_same_length)

lemma gamma_plain_shaped:
  assumes "label_shaped mfq l"
  shows "\<exists>g. gamma_plain mfq l = Inr g \<and> length g = n_points mfq"
proof -
  let ?n = "n_points mfq"
  from assms have s: "rows3 ?n (gradT mfq)" "rows3 ?n (uc l)"
    "length (rho mfq) = ?n" "length (mut mfq) = ?n"
    by (simp_all add: label_shaped_def)
  obtain ucT where a: "bc2 fmul (uc l) (gradT mfq) = Inr ucT" "rows3 ?n ucT"
    using bc2_33 [OF s(2) s(1)] by blast
  obtain TT where b: "bc2 fmul (gradT mfq) (gradT mfq) = Inr TT" "rows3 ?n TT"
    using bc2_33 [OF s(1) s(1)] by blast
  from a b s gamma_ratio_shaped [of "row_sums ucT" ?n "row_sums TT" mfq]
  show ?thesis
    by (simp add: gamma_plain_def then_do_def row_sums_def rows3_def)
qed

lemma gamma_corrected_shaped:
  assumes "label_shaped mfq l"
  shows "\<exists>g. gamma_corrected mfq l = Inr g \<and> length g = n_points mfq"
proof -
  let ?n = "n_points mfq"
  let ?norm = "map (\<lambda>r. [fsqrt (fsum (map (\<lambda>x. fmul x x) r))]) (uc l)"
  from assms have s: "rows3 ?n (gradT mfq)" "rows3 ?n (uc l)" "rows3 ?n (self_u l)"
    "length (self_t l) = ?n" "length (rho mfq) = ?n" "length (mut mfq) = ?n"
    by (simp_all add: label_shaped_def)
  obtain ut where ut: "bc2 fmul (self_u l) (map (\<lambda>x. [x]) (self_t l)) = Inr ut" "rows3 ?n ut"
    using bc2_31 [OF s(3) s(4)] by blast
  have au: "rows3 ?n (map (map fabs) ut)" using ut(2) by (rule rows3_map_map)
  have lu: "length (uc l) = ?n" using s(2) by (simp add: rows3_def)
  obtain F1 where F1: "bc2 fadd ?norm (map (map fabs) ut) = Inr F1" "rows3 ?n F1"
    using bc2_13 [OF lu au, where f = fadd and g = "\<lambda>r. fsqrt (fsum (map (\<lambda>x. fmul x x) r))"]
    by blast
  let ?F = "map (map (fdiv (Num 1))) F1"
  have F: "rows3 ?n ?F" using F1(2) by (rule rows3_map_map)
  obtain Fuc where Fuc: "bc2 fmul ?F (uc l) = Inr Fuc" "rows3 ?n Fuc"
    using bc2_33 [OF F s(2)] by blast
  obtain FucT where FucT: "bc2 fmul Fuc (gradT mfq) = Inr FucT" "rows3 ?n FucT"
    using bc2_33 [OF Fuc(2) s(1)] by blast
  obtain FT where FT: "bc2 fmul ?F (gradT mfq) = Inr FT" "rows3 ?n FT"
    using bc2_33 [OF F s(1)] by blast
  obtain FTT where FTT: "bc2 fmul FT (gradT mfq) = Inr FTT" "rows3 ?n FTT"
    using bc2_33 [OF FT(2) s(1)] by blast
  from ut F1 Fuc FucT FT FTT s gamma_ratio_shaped [of "row_sums FucT" ?n "row_sums FTT" mfq]
  show ?thesis
    by (simp add: gamma_corrected_def then_do_def row_sums_def rows3_def Let_def)
qed

text \<open>
  C6, amended. For a cap of at least 1, in the plain and in the corrected mode, every
  entry of the vector that \<open>calculateGamma\<close> returns is a NaN or lies in [1/cap, cap]; a
  NaN is what an unguarded 0/0 or 0 times infinity of the ratio leaves, and the clipping
  keeps it. On a label-mode container with arrays of the constructor's shapes the
  function returns one entry per cell.
\<close>

theorem calculateGamma_clipped:
  assumes "1 \<le> prt_cap"
  shows "(\<forall>gamma. calculateGamma mfq prt_cap use_correction = Inr gamma \<longrightarrow>
            list_all (\<lambda>g. g = NaN \<or> in_range (1 / prt_cap) prt_cap g) gamma) \<and>
         (label_shaped mfq l \<longrightarrow>
            (\<exists>gamma. calculateGamma mfq prt_cap use_correction = Inr gamma \<and>
               length gamma = n_points mfq))"
proof (intro conjI allI impI)
  fix gamma
  assume r: "calculateGamma mfq prt_cap use_correction = Inr gamma"
  then obtain raw where
    "gamma = map (clip_below (1 / prt_cap)) (map (clip_above prt_cap) raw)"
    by (auto simp: calculateGamma_def then_do_def split: mode_fields.splits sum.splits if_splits)
  then show "list_all (\<lambda>g. g = NaN \<or> in_range (1 / prt_cap) prt_cap g) gamma"
    using clip_in_range [OF assms] by (simp add: list_all_iff)
next
  assume h: "label_shaped mfq l"
  then have m: "mode mfq = LabelMode l" by (simp add: label_shaped_def)
  from h obtain raw where
    "(if use_correction then gamma_corrected mfq l else gamma_plain mfq l) = Inr raw"
    "length raw = n_points mfq"
    using gamma_plain_shaped [OF h] gamma_corrected_shaped [OF h] by (cases use_correction) auto
  with m assms show "\<exists>gamma. calculateGamma mfq prt_cap use_correction = Inr gamma \<and>
               length gamma = n_points mfq"
    by (simp add: calculateGamma_def then_do_def)
qed

lemma mfq_lab_plain: "gamma_plain mfq_lab lab_ex = Inr [Num 1, NaN]"
  by (simp add: gamma_plain_def gamma_ratio_def mfq_lab_def lab_ex_def bc_eval)

lemma mfq_lab_corrected: "gamma_corrected mfq_lab lab_ex = Inr [Num 1, NaN]"
  by (simp add: gamma_corrected_def gamma_ratio_def mfq_lab_def lab_ex_def bc_eval Let_def)

lemma mfq_lab_mode: "mode mfq_lab = LabelMode lab_ex"
  by (simp add: mfq_lab_def)

lemma mfq_lab_gamma:
  "cap \<noteq> 0 \<Longrightarrow> calculateGamma mfq_lab cap b =
     Inr [clip_below (1 / cap) (clip_above cap (Num 1)), clip_below (1 / cap) (clip_above cap NaN)]"
  by (simp add: calculateGamma_def mfq_lab_mode mfq_lab_plain mfq_lab_corrected then_do_def)

theorem calculateGamma_clipped_witness:
  "(1::real) \<le> 2 \<and> label_shaped mfq_lab lab_ex \<and>
   calculateGamma mfq_lab 2 False = Inr [Num 1, NaN] \<and>
   calculateGamma mfq_lab 2 True = Inr [Num 1, NaN] \<and>
   list_all (\<lambda>g. g = NaN \<or> in_range (1 / 2) 2 g) [Num 1, NaN] \<and>
   length [Num 1, NaN] = n_points mfq_lab"
proof -
  have h: "(1::real) \<le> 2" by simp
  have s: "label_shaped mfq_lab lab_ex"
    by (simp add: label_shaped_def rows3_def mfq_lab_def lab_ex_def)
  have g: "calculateGamma mfq_lab 2 b = Inr [Num 1, NaN]" for b
    by (simp add: mfq_lab_gamma clip_below_def clip_above_def fgt_def)
  from calculateGamma_clipped [OF h, of mfq_lab False lab_ex] s g h show ?thesis
    by (simp add: mfq_lab_def)
qed

text \<open>
  C6 as stated fails in two ways. With cap 1/2 the first clipping sets the entry 1 to 1/2
  and the second sets it to 1/(1/2) = 2, which is outside the (empty) interval [2, 1/2].
  With cap 2 the cell with a zero temperature gradient gives 0/0, a NaN, which both
  comparisons of the clipping leave in place.
\<close>

theorem calculateGamma_range_counterexample:
  "calculateGamma mfq_lab (1 / 2) False = Inr [Num 2, NaN] \<and>
   calculateGamma mfq_lab (1 / 2) True = Inr [Num 2, NaN] \<and>
   \<not> in_range (1 / (1 / 2)) (1 / 2) (Num 2) \<and>
   calculateGamma mfq_lab 2 False = Inr [Num 1, NaN] \<and>
   calculateGamma mfq_lab 2 True = Inr [Num 1, NaN] \<and>
   \<not> in_range (1 / 2) 2 NaN"
  by (simp add: mfq_lab_gamma clip_below_def clip_above_def fgt_def in_range_def)

section \<open>Downsampling and persistence\<close>

lemma perm_length: "mset ys = mset xs \<Longrightarrow> length ys = length xs"
  by (metis size_mset)

lemma take_rows_perm:
  assumes "mset idx = mset [0..<length var]"
  shows "take_rows var idx = Inr (map (\<lambda>i. var ! i) idx)"
proof -
  from assms have "set idx = set [0..<length var]" by (rule mset_eq_setD)
  then show ?thesis by (simp add: take_rows_def list_all_iff)
qed

lemma mset_map_nth_perm:
  assumes "mset idx = mset [0..<length v]"
  shows "mset (map (\<lambda>i. v ! i) idx) = mset v"
proof -
  have "mset (map (\<lambda>i. v ! i) idx) = image_mset (\<lambda>i. v ! i) (mset idx)" by simp
  also have "\<dots> = image_mset (\<lambda>i. v ! i) (mset [0..<length v])" using assms by simp
  also have "\<dots> = mset (map (\<lambda>i. v ! i) [0..<length v])" by simp
  also have "\<dots> = mset v" by (simp add: map_nth)
  finally show ?thesis .
qed

lemma collect_all_Inr:
  "list_all (\<lambda>z. h z = Inr (k z)) zs \<Longrightarrow> collect (map h zs) = Inr (map k zs)"
  by (induction zs) simp_all

lemma downsampleIdx_None: "downsampleIdx shuffle n None = Inr (shuffle [0..<n])"
  by (simp add: downsampleIdx_def)

subsection \<open>A downsample of 1.5\<close>

lemma py_int_three_halves: "py_int (3 / 2) = 1" "py_int (3 / 2 * real 10) = 15"
  by (simp_all add: py_int_def)

lemma downsampleIdx_three_halves:
  "downsampleIdx shuffle 10 (Some (3 / 2)) = Inr (take 10 (shuffle [0..<10]))"
  by (simp add: downsampleIdx_def py_int_def Let_def)

text \<open>
  C2 as stated fails: with downsample 1.5 on 10 rows the code does not take 1 row.
  \<^verbatim>\<open>int(1.5)\<close> is 1, which is not greater than 1, so the fraction branch runs:
  \<^verbatim>\<open>int(1.5 * 10)\<close> is 15, clamped to 10. With the shuffle that reverses, all ten
  indices come back.
\<close>

theorem downsample_three_halves_counterexample:
  "py_int (3 / 2) = 1 \<and>
   downsampleIdx rev 10 (Some (3 / 2)) = Inr [9, 8, 7, 6, 5, 4, 3, 2, 1, 0] \<and>
   length [9, 8, 7, 6, 5, 4, 3, 2, 1, 0 :: nat] \<noteq> 1"
  by (simp add: downsampleIdx_three_halves py_int_def upt_conv_Cons)

text \<open>
  C2, amended. For a 10-row dataset and downsample 1.5, \<open>downsampleIdx\<close> returns all 10
  indices (a permutation of 0..9), and \<open>saveTrainingFeatures\<close> on arrays of 10 rows saves
  10 rows of each: 1.5 is treated as a fraction, clamped to the available rows.
\<close>

theorem downsample_three_halves_takes_all:
  assumes "\<forall>xs. mset (shuffle xs) = mset xs"
  shows "(\<exists>idx. downsampleIdx shuffle 10 (Some (3 / 2)) = Inr idx \<and> length idx = 10 \<and>
            mset idx = mset [0..<10]) \<and>
         (training_list \<noteq> [] \<and> list_all (\<lambda>v. length v = 10) training_list \<longrightarrow>
            (\<exists>saved. saveTrainingFeatures shuffle disk training_list model_type filename
                        (Some (3 / 2)) = Inr (disk(filename \<mapsto> (model_type, saved))) \<and>
               length saved = length training_list \<and>
               list_all (\<lambda>v. length v = 10) saved))"
proof (intro conjI impI)
  let ?idx = "shuffle [0..<10]"
  have p: "mset ?idx = mset [0..<10]" using assms by simp
  have l: "length ?idx = 10" using perm_length [OF p] by simp
  have d: "downsampleIdx shuffle 10 (Some (3 / 2)) = Inr ?idx"
    using l by (simp add: downsampleIdx_three_halves)
  show "\<exists>idx. downsampleIdx shuffle 10 (Some (3 / 2)) = Inr idx \<and> length idx = 10 \<and>
            mset idx = mset [0..<10]"
    using d l p by simp
  assume h: "training_list \<noteq> [] \<and> list_all (\<lambda>v. length v = 10) training_list"
  then obtain first rest where tl: "training_list = first # rest" and f: "length first = 10"
    by (cases training_list) auto
  have "list_all (\<lambda>var. take_rows var ?idx = Inr (map (\<lambda>i. var ! i) ?idx)) training_list"
    using h p by (auto simp: list_all_iff intro!: take_rows_perm)
  then have c: "collect (map (\<lambda>var. take_rows var ?idx) training_list) =
      Inr (map (\<lambda>var. map (\<lambda>i. var ! i) ?idx) training_list)"
    by (rule collect_all_Inr)
  let ?saved = "map (\<lambda>var. map (\<lambda>i. var ! i) ?idx) training_list"
  have "saveTrainingFeatures shuffle disk training_list model_type filename (Some (3 / 2)) =
      Inr (disk(filename \<mapsto> (model_type, ?saved)))"
    using tl f d c by (simp add: saveTrainingFeatures_def then_do_def)
  moreover have "length ?saved = length training_list" by simp
  moreover have "list_all (\<lambda>v. length v = 10) ?saved" using l by (simp add: list_all_iff)
  ultimately show "\<exists>saved. saveTrainingFeatures shuffle disk training_list model_type filename
                        (Some (3 / 2)) = Inr (disk(filename \<mapsto> (model_type, saved))) \<and>
               length saved = length training_list \<and>
               list_all (\<lambda>v. length v = 10) saved"
    by blast
qed

theorem downsample_three_halves_takes_all_witness:
  "(\<forall>xs :: nat list. mset (rev xs) = mset xs) \<and>
   training10 \<noteq> [] \<and> list_all (\<lambda>v. length v = 10) training10 \<and>
   (\<exists>idx. downsampleIdx rev 10 (Some (3 / 2)) = Inr idx \<and> length idx = 10) \<and>
   (\<exists>saved. saveTrainingFeatures rev Map.empty training10 tag_RF file_ex
               (Some (3 / 2)) = Inr [file_ex \<mapsto> (tag_RF, saved)] \<and>
      list_all (\<lambda>v. length v = 10) saved)"
proof -
  have h: "\<forall>xs :: nat list. mset (rev xs) = mset xs" by simp
  have t: "training10 \<noteq> []" "list_all (\<lambda>v. length v = 10) training10"
    by (simp_all add: training10_def)
  from downsample_three_halves_takes_all
    [OF h, of training10 Map.empty tag_RF file_ex] h t
  show ?thesis by blast
qed

subsection \<open>Saving and loading\<close>

text \<open>Saving on arrays of one row count.\<close>

lemma save_all_rows:
  assumes "mset (shuffle [0..<n]) = mset [0..<n]"
      and "training_list = first # rest" "list_all (\<lambda>v. length v = n) training_list"
  shows "saveTrainingFeatures shuffle disk training_list tag filename None =
           Inr (disk(filename \<mapsto>
             (tag, map (\<lambda>var. map (\<lambda>i. var ! i) (shuffle [0..<n])) training_list)))"
proof -
  have f: "length first = n" using assms(2,3) by simp
  have "list_all (\<lambda>var. take_rows var (shuffle [0..<n]) =
            Inr (map (\<lambda>i. var ! i) (shuffle [0..<n]))) training_list"
    using assms(1,3) by (auto simp: list_all_iff intro!: take_rows_perm)
  then have "collect (map (\<lambda>var. take_rows var (shuffle [0..<n])) training_list) =
      Inr (map (\<lambda>var. map (\<lambda>i. var ! i) (shuffle [0..<n])) training_list)"
    by (rule collect_all_Inr)
  moreover have "saveTrainingFeatures shuffle disk training_list tag filename None =
      then_do (collect (map (\<lambda>var. take_rows var (shuffle [0..<n])) training_list))
        (\<lambda>save_var. Inr (disk(filename \<mapsto> (tag, save_var))))"
    unfolding saveTrainingFeatures_def assms(2) using f
    by (simp add: downsampleIdx_None then_do_def)
  ultimately show ?thesis by (simp add: then_do_def)
qed

lemma load_all_rows:
  assumes "mset (shuffle [0..<n]) = mset [0..<n]"
      and "disk file = Some (tag, save_vars)"
      and "save_vars = first # rest" "list_all (\<lambda>v. length v = n) save_vars"
  shows "loadTrainingFeatures shuffle disk file tag None =
           Inr (map (\<lambda>var. map (\<lambda>i. var ! i) (shuffle [0..<n])) save_vars)"
proof -
  have f: "length first = n" using assms(3,4) by simp
  have "list_all (\<lambda>var. (if length var \<noteq> n then Inl AssertionError
                          else take_rows var (shuffle [0..<n])) =
            Inr (map (\<lambda>i. var ! i) (shuffle [0..<n]))) save_vars"
    using assms(1,4) by (auto simp: list_all_iff intro!: take_rows_perm)
  then have "collect (map (\<lambda>var. if length var \<noteq> n then Inl AssertionError
                                  else take_rows var (shuffle [0..<n])) save_vars) =
      Inr (map (\<lambda>var. map (\<lambda>i. var ! i) (shuffle [0..<n])) save_vars)"
    by (rule collect_all_Inr)
  moreover have "loadTrainingFeatures shuffle disk file tag None =
      collect (map (\<lambda>var. if length var \<noteq> n then Inl AssertionError
                          else take_rows var (shuffle [0..<n])) save_vars)"
    unfolding loadTrainingFeatures_def assms(2) using f
    by (simp add: assms(3) downsampleIdx_None then_do_def)
  ultimately show ?thesis by simp
qed

lemma load_wrong_tag:
  "disk file = Some (tag, save_vars) \<Longrightarrow> wrong \<noteq> tag \<Longrightarrow>
   loadTrainingFeatures shuffle disk file wrong ds = Inl AssertionError"
  by (simp add: loadTrainingFeatures_def)

text \<open>
  C7. For a non-empty list of arrays with one row count, saved under a tag without
  downsampling and loaded with the same tag without downsampling: the save and the load
  succeed, and the loaded arrays are the saved ones under one common permutation of the
  rows, so each has the same rows as a multiset. Loading the file with any other tag fails
  with an AssertionError (the spec's ValidationError).
\<close>

theorem persistence_roundtrip:
  assumes "\<forall>xs. mset (shuffle1 xs) = mset xs" "\<forall>xs. mset (shuffle2 xs) = mset xs"
      and "training_list \<noteq> []"
      and "list_all (\<lambda>v. length v = length (hd training_list)) training_list"
  shows "\<exists>disk' loaded p.
           saveTrainingFeatures shuffle1 disk training_list tag filename None = Inr disk' \<and>
           loadTrainingFeatures shuffle2 disk' filename tag None = Inr loaded \<and>
           mset p = mset [0..<length (hd training_list)] \<and>
           loaded = map (\<lambda>v. map (\<lambda>i. v ! i) p) training_list \<and>
           map mset loaded = map mset training_list \<and>
           (\<forall>wrong ds. wrong \<noteq> tag \<longrightarrow>
              loadTrainingFeatures shuffle2 disk' filename wrong ds = Inl AssertionError)"
proof -
  let ?n = "length (hd training_list)"
  let ?idx1 = "shuffle1 [0..<?n]" and ?idx2 = "shuffle2 [0..<?n]"
  let ?saved = "map (\<lambda>var. map (\<lambda>i. var ! i) ?idx1) training_list"
  let ?disk = "disk(filename \<mapsto> (tag, ?saved))"
  let ?p = "map (\<lambda>j. ?idx1 ! j) ?idx2"
  from assms(3) obtain first rest where tl: "training_list = first # rest"
    by (cases training_list) auto
  have p1: "mset ?idx1 = mset [0..<?n]" and p2: "mset ?idx2 = mset [0..<?n]"
    using assms(1,2) by simp_all
  have l1: "length ?idx1 = ?n" using perm_length [OF p1] by simp
  have save: "saveTrainingFeatures shuffle1 disk training_list tag filename None = Inr ?disk"
    using save_all_rows [where shuffle = shuffle1 and n = ?n, OF p1 tl assms(4)] .
  have sv: "?saved = map (\<lambda>i. first ! i) ?idx1 # map (\<lambda>var. map (\<lambda>i. var ! i) ?idx1) rest"
    using tl by simp
  have sl: "list_all (\<lambda>v. length v = ?n) ?saved"
    using l1 by (simp add: list_all_iff)
  have load: "loadTrainingFeatures shuffle2 ?disk filename tag None =
      Inr (map (\<lambda>var. map (\<lambda>i. var ! i) ?idx2) ?saved)"
    by (rule load_all_rows [where shuffle = shuffle2 and n = ?n, OF p2 _ sv sl]) simp
  have in2: "\<forall>j\<in>set ?idx2. j < length ?idx1"
    using mset_eq_setD [OF p2] l1 by simp
  have comp: "map (\<lambda>var. map (\<lambda>i. var ! i) ?idx2) ?saved =
      map (\<lambda>v. map (\<lambda>i. v ! i) ?p) training_list"
    using in2 by (simp add: comp_def)
  have pp: "mset ?p = mset [0..<?n]"
    using mset_map_nth_perm [of ?idx2 ?idx1] p2 l1 p1 by simp
  have each: "mset (map (\<lambda>i. v ! i) ?p) = mset v" if "v \<in> set training_list" for v
  proof -
    from that assms(4) have lv: "length v = ?n" by (simp add: list_all_iff)
    from pp have "mset ?p = mset [0..<length v]" by (simp only: lv)
    then show ?thesis by (rule mset_map_nth_perm)
  qed
  have "map (\<lambda>v. mset (map (\<lambda>i. v ! i) ?p)) training_list = map mset training_list"
    by (rule map_cong [OF refl]) (rule each)
  then have ms: "map mset (map (\<lambda>v. map (\<lambda>i. v ! i) ?p) training_list) = map mset training_list"
    by (simp only: map_map comp_def)
  have wrong: "\<forall>wrong ds. wrong \<noteq> tag \<longrightarrow>
      loadTrainingFeatures shuffle2 ?disk filename wrong ds = Inl AssertionError"
    by (simp add: load_wrong_tag)
  from save load comp pp ms wrong show ?thesis by metis
qed


theorem persistence_roundtrip_witness:
  "(\<forall>xs :: nat list. mset (rev xs) = mset xs) \<and>
   (\<forall>xs :: nat list. mset (rotate1 xs) = mset xs) \<and>
   training_ex \<noteq> [] \<and>
   list_all (\<lambda>v. length v = length (hd training_ex)) training_ex \<and>
   (\<exists>disk' loaded.
      saveTrainingFeatures rev Map.empty training_ex tag_RF file_ex None = Inr disk' \<and>
      loadTrainingFeatures rotate1 disk' file_ex tag_RF None = Inr loaded \<and>
      map mset loaded = map mset training_ex \<and>
      loadTrainingFeatures rotate1 disk' file_ex tag_TBNNS None = Inl AssertionError)"
proof -
  have h1: "\<forall>xs :: nat list. mset (rev xs) = mset xs" by simp
  have h2: "\<forall>xs :: nat list. mset (rotate1 xs) = mset xs"
  proof
    fix xs :: "nat list"
    show "mset (rotate1 xs) = mset xs" by (cases xs) simp_all
  qed
  have h3: "training_ex \<noteq> []" by (simp add: training_ex_def)
  have h4: "list_all (\<lambda>v. length v = length (hd training_ex)) training_ex"
    by (simp add: training_ex_def)
  have t: "tag_TBNNS \<noteq> tag_RF" by (simp add: tag_TBNNS_def tag_RF_def)
  from persistence_roundtrip [OF h1 h2 h3 h4, of Map.empty tag_RF file_ex]
  obtain disk' loaded where
    a: "saveTrainingFeatures rev Map.empty training_ex tag_RF file_ex None = Inr disk'" and
    b: "loadTrainingFeatures rotate1 disk' file_ex tag_RF None = Inr loaded" and
    c: "map mset loaded = map mset training_ex" and
    w: "\<forall>wrong ds. wrong \<noteq> tag_RF \<longrightarrow>
       loadTrainingFeatures rotate1 disk' file_ex wrong ds = Inl AssertionError"
    by blast
  from w t have "loadTrainingFeatures rotate1 disk' file_ex tag_TBNNS None = Inl AssertionError"
    by blast
  with a b c have "\<exists>disk' loaded.
      saveTrainingFeatures rev Map.empty training_ex tag_RF file_ex None = Inr disk' \<and>
      loadTrainingFeatures rotate1 disk' file_ex tag_RF None = Inr loaded \<and>
      map mset loaded = map mset training_ex \<and>
      loadTrainingFeatures rotate1 disk' file_ex tag_TBNNS None = Inl AssertionError"
    by blast
  with h1 h2 h3 h4 show ?thesis by (intro conjI)
qed

end
